theory Spec2Isabelle
  imports Main "HOL-Library.AList"
begin

section \<open>The persistence layer (dal.py)\<close>

subsection \<open>Tables\<close>

text \<open>
  One record per mapped class of \<^verbatim>\<open>dal.py\<close>. The columns keep their names behind a
  prefix for the table (\<open>u_\<close>, \<open>ml_\<close>, \<open>s_\<close>, \<open>t_\<close>, \<open>m_\<close>), because several tables
  have an \<^verbatim>\<open>id\<close>, a \<^verbatim>\<open>name\<close> and a \<^verbatim>\<open>user_id\<close>. \<^verbatim>\<open>Integer\<close> columns are \<open>int\<close>,
  \<^verbatim>\<open>String\<close> and \<^verbatim>\<open>Text\<close> columns are \<open>string\<close>, a \<^verbatim>\<open>DateTime\<close> is the number of seconds
  since the epoch, and a nullable column is an \<open>option\<close>.
\<close>

record user =
  u_id :: int
  u_username :: string
  u_hashed_password :: string
  u_email :: string
  u_is_active :: bool
  u_is_admin :: bool

record mailing_list =
  ml_id :: int
  ml_name :: string
  ml_user_id :: int

record subscriber =
  s_id :: int
  s_email :: string
  s_mailing_list_id :: int

record template =
  t_id :: int
  t_name :: string
  t_content :: string
  t_user_id :: int

record mailing =
  m_id :: int
  m_mailing_list_id :: int
  m_template_id :: int
  m_scheduled_at :: "int option"
  m_sent_at :: "int option"
  m_user_id :: int

text \<open>
  The database is the five tables, each a list of rows in insertion order.
  \<open>foreign_keys\<close> says whether the engine behind \<^verbatim>\<open>DATABASE_URL\<close> rejects an INSERT
  whose foreign key has no target row; the source does not fix the engine, so the flag
  is left open and every result below holds for both values.
\<close>

record database =
  users :: "user list"
  mailing_lists :: "mailing_list list"
  subscribers :: "subscriber list"
  templates :: "template list"
  mailings :: "mailing list"
  foreign_keys :: bool

definition empty_database :: "bool \<Rightarrow> database" where
  "empty_database fk =
     \<lparr>users = [], mailing_lists = [], subscribers = [], templates = [], mailings = [],
      foreign_keys = fk\<rparr>"

subsection \<open>Exceptions\<close>

text \<open>
  Every exception the modelled code can raise is a value: \<^verbatim>\<open>HTTPException\<close> with its
  status code and detail, the two exceptions of the object-relational mapper that the
  source never catches, and the exceptions of the token library.
\<close>

datatype exn =
    HTTPException nat string
  | IntegrityError
  | MultipleResultsFound
  | JWTError
  | ExpiredSignatureError

subsection \<open>Sessions\<close>

text \<open>
  A mapped object of any of the five classes.
\<close>

datatype row =
    UserRow user
  | MailingListRow mailing_list
  | SubscriberRow subscriber
  | TemplateRow template
  | MailingRow mailing

text \<open>
  A session is a unit of work: the objects handed to \<^verbatim>\<open>session.add\<close>, the objects of
  its identity map that were modified, and the objects handed to \<^verbatim>\<open>session.delete\<close>
  together with the objects the delete cascades to. \<^verbatim>\<open>commit\<close> writes the three
  lists to the database. An object belongs to the identity map of the session that
  loaded it, and leaves it (is detached) when that session is closed.
\<close>

record session =
  new :: "row list"
  dirty :: "row list"
  deleted :: "row list"

definition get_async_session :: session where
  "get_async_session = \<lparr>new = [], dirty = [], deleted = []\<rparr>"

definition session_add :: "session \<Rightarrow> row \<Rightarrow> session" where
  "session_add s x = s\<lparr>new := new s @ [x]\<rparr>"

text \<open>
  The primary key an INSERT assigns: one more than the largest key of the table
  (1 for an empty table). The only property used below is that it is not in the table.
\<close>

definition next_id :: "int list \<Rightarrow> int" where
  "next_id ids = Max (insert 0 (set ids)) + 1"

text \<open>
  INSERT of one row. The primary key and the \<^verbatim>\<open>unique=True\<close> columns
  (\<^verbatim>\<open>users.username\<close>, \<^verbatim>\<open>users.email\<close>, \<^verbatim>\<open>subscribers.email\<close>) are checked by every
  engine, the foreign keys by an engine that enforces them; a violation is
  \<^verbatim>\<open>IntegrityError\<close> and leaves the table as it was.
\<close>

fun insert_row :: "row \<Rightarrow> database \<Rightarrow> exn + database" where
  "insert_row (UserRow u) db =
     (if u_id u \<in> set (map u_id (users db))
         \<or> u_username u \<in> set (map u_username (users db))
         \<or> u_email u \<in> set (map u_email (users db))
      then Inl IntegrityError
      else Inr (db\<lparr>users := users db @ [u]\<rparr>))"
| "insert_row (MailingListRow l) db =
     (if ml_id l \<in> set (map ml_id (mailing_lists db))
         \<or> (foreign_keys db \<and> ml_user_id l \<notin> set (map u_id (users db)))
      then Inl IntegrityError
      else Inr (db\<lparr>mailing_lists := mailing_lists db @ [l]\<rparr>))"
| "insert_row (SubscriberRow s) db =
     (if s_id s \<in> set (map s_id (subscribers db))
         \<or> s_email s \<in> set (map s_email (subscribers db))
         \<or> (foreign_keys db \<and> s_mailing_list_id s \<notin> set (map ml_id (mailing_lists db)))
      then Inl IntegrityError
      else Inr (db\<lparr>subscribers := subscribers db @ [s]\<rparr>))"
| "insert_row (TemplateRow t) db =
     (if t_id t \<in> set (map t_id (templates db))
         \<or> (foreign_keys db \<and> t_user_id t \<notin> set (map u_id (users db)))
      then Inl IntegrityError
      else Inr (db\<lparr>templates := templates db @ [t]\<rparr>))"
| "insert_row (MailingRow m) db =
     (if m_id m \<in> set (map m_id (mailings db))
         \<or> (foreign_keys db
             \<and> (m_mailing_list_id m \<notin> set (map ml_id (mailing_lists db))
                \<or> m_template_id m \<notin> set (map t_id (templates db))
                \<or> m_user_id m \<notin> set (map u_id (users db))))
      then Inl IntegrityError
      else Inr (db\<lparr>mailings := mailings db @ [m]\<rparr>))"

text \<open>
  UPDATE of the row with the object's primary key, for a modified object of the
  identity map.
\<close>

fun update_row :: "row \<Rightarrow> database \<Rightarrow> exn + database" where
  "update_row (UserRow u) db =
     (if \<exists>v \<in> set (users db). u_id v \<noteq> u_id u
           \<and> (u_username v = u_username u \<or> u_email v = u_email u)
      then Inl IntegrityError
      else Inr (db\<lparr>users := map (\<lambda>v. if u_id v = u_id u then u else v) (users db)\<rparr>))"
| "update_row (MailingListRow l) db =
     Inr (db\<lparr>mailing_lists :=
            map (\<lambda>v. if ml_id v = ml_id l then l else v) (mailing_lists db)\<rparr>)"
| "update_row (SubscriberRow s) db =
     (if \<exists>v \<in> set (subscribers db). s_id v \<noteq> s_id s \<and> s_email v = s_email s
      then Inl IntegrityError
      else Inr (db\<lparr>subscribers :=
                  map (\<lambda>v. if s_id v = s_id s then s else v) (subscribers db)\<rparr>))"
| "update_row (TemplateRow t) db =
     Inr (db\<lparr>templates := map (\<lambda>v. if t_id v = t_id t then t else v) (templates db)\<rparr>)"
| "update_row (MailingRow m) db =
     Inr (db\<lparr>mailings := map (\<lambda>v. if m_id v = m_id m then m else v) (mailings db)\<rparr>)"

text \<open>
  DELETE of the row with the object's primary key.
\<close>

fun delete_row :: "row \<Rightarrow> database \<Rightarrow> exn + database" where
  "delete_row (UserRow u) db =
     Inr (db\<lparr>users := filter (\<lambda>v. u_id v \<noteq> u_id u) (users db)\<rparr>)"
| "delete_row (MailingListRow l) db =
     Inr (db\<lparr>mailing_lists := filter (\<lambda>v. ml_id v \<noteq> ml_id l) (mailing_lists db)\<rparr>)"
| "delete_row (SubscriberRow s) db =
     Inr (db\<lparr>subscribers := filter (\<lambda>v. s_id v \<noteq> s_id s) (subscribers db)\<rparr>)"
| "delete_row (TemplateRow t) db =
     Inr (db\<lparr>templates := filter (\<lambda>v. t_id v \<noteq> t_id t) (templates db)\<rparr>)"
| "delete_row (MailingRow m) db =
     Inr (db\<lparr>mailings := filter (\<lambda>v. m_id v \<noteq> m_id m) (mailings db)\<rparr>)"

fun flush :: "(row \<Rightarrow> database \<Rightarrow> exn + database) \<Rightarrow> row list \<Rightarrow> database
    \<Rightarrow> exn + database" where
  "flush f [] db = Inr db"
| "flush f (x # xs) db =
     (case f x db of Inl e \<Rightarrow> Inl e | Inr db' \<Rightarrow> flush f xs db')"

text \<open>
  \<^verbatim>\<open>session.commit()\<close>: the INSERTs, the UPDATEs and the DELETEs of the session in one
  transaction. An exception leaves the database as it was (the caller keeps \<open>db\<close>).
\<close>

definition commit :: "session \<Rightarrow> database \<Rightarrow> exn + database" where
  "commit s db =
     (case flush insert_row (new s) db of
        Inl e \<Rightarrow> Inl e
      | Inr db1 \<Rightarrow>
          (case flush update_row (dirty s) db1 of
             Inl e \<Rightarrow> Inl e
           | Inr db2 \<Rightarrow> flush delete_row (deleted s) db2))"

text \<open>
  The relationships of \<^verbatim>\<open>dal.py\<close> that are declared with
  \<^verbatim>\<open>cascade="all, delete-orphan"\<close>: \<^verbatim>\<open>User.mailing_lists\<close>, \<^verbatim>\<open>User.templates\<close>,
  \<^verbatim>\<open>User.mailings\<close>, \<^verbatim>\<open>MailingList.subscribers\<close>, \<^verbatim>\<open>MailingList.mailings\<close> and
  \<^verbatim>\<open>Template.mailings\<close>. \<^verbatim>\<open>session.delete(x)\<close> loads each of them for \<open>x\<close> (the rows
  whose foreign key is the key of \<open>x\<close>) and marks the loaded objects as deleted too,
  children before their parent.
\<close>

definition cascade_mailing_list :: "database \<Rightarrow> mailing_list \<Rightarrow> row list" where
  "cascade_mailing_list db l =
     map SubscriberRow (filter (\<lambda>s. s_mailing_list_id s = ml_id l) (subscribers db))
     @ map MailingRow (filter (\<lambda>m. m_mailing_list_id m = ml_id l) (mailings db))
     @ [MailingListRow l]"

definition cascade_template :: "database \<Rightarrow> template \<Rightarrow> row list" where
  "cascade_template db t =
     map MailingRow (filter (\<lambda>m. m_template_id m = t_id t) (mailings db))
     @ [TemplateRow t]"

definition cascade_user :: "database \<Rightarrow> user \<Rightarrow> row list" where
  "cascade_user db u =
     concat (map (cascade_mailing_list db)
               (filter (\<lambda>l. ml_user_id l = u_id u) (mailing_lists db)))
     @ concat (map (cascade_template db)
                 (filter (\<lambda>t. t_user_id t = u_id u) (templates db)))
     @ map MailingRow (filter (\<lambda>m. m_user_id m = u_id u) (mailings db))
     @ [UserRow u]"

fun cascade :: "database \<Rightarrow> row \<Rightarrow> row list" where
  "cascade db (UserRow u) = cascade_user db u"
| "cascade db (MailingListRow l) = cascade_mailing_list db l"
| "cascade db (SubscriberRow s) = [SubscriberRow s]"
| "cascade db (TemplateRow t) = cascade_template db t"
| "cascade db (MailingRow m) = [MailingRow m]"

definition session_delete :: "database \<Rightarrow> session \<Rightarrow> row \<Rightarrow> session" where
  "session_delete db s x = s\<lparr>deleted := deleted s @ cascade db x\<rparr>"

text \<open>
  \<^verbatim>\<open>Result.scalar_one_or_none()\<close>: no row is \<^verbatim>\<open>None\<close>, one row is that row, more rows
  raise.
\<close>

fun scalar_one_or_none :: "'a list \<Rightarrow> exn + 'a option" where
  "scalar_one_or_none [] = Inr None"
| "scalar_one_or_none [r] = Inr (Some r)"
| "scalar_one_or_none (r # r' # rs) = Inl MultipleResultsFound"

text \<open>
  A Python value used as a condition: \<^verbatim>\<open>None\<close> and the empty string are false.
\<close>

fun truthy :: "string option \<Rightarrow> bool" where
  "truthy None = False"
| "truthy (Some s) = (s \<noteq> [])"

subsection \<open>UserDAO\<close>

text \<open>
  Every method of a data access object opens a session of its own
  (\<^verbatim>\<open>async with await self.session_manager.get_async_session() as session\<close>) and
  closes it on return. A method that changes the database returns the database after
  the call together with its result or the exception it raised.
\<close>

definition create_user :: "database \<Rightarrow> string \<Rightarrow> string \<Rightarrow> string \<Rightarrow> bool
    \<Rightarrow> database \<times> (exn + user)" where
  "create_user db username hashed_password email is_admin =
     (let session = get_async_session;
          new_user = \<lparr>u_id = next_id (map u_id (users db)), u_username = username,
                      u_hashed_password = hashed_password, u_email = email,
                      u_is_active = True, u_is_admin = is_admin\<rparr>;
          session = session_add session (UserRow new_user)
      in case commit session db of
           Inl e \<Rightarrow> (db, Inl e)
         | Inr db' \<Rightarrow> (db', Inr new_user))"

definition get_user_by_username :: "database \<Rightarrow> string \<Rightarrow> exn + user option" where
  "get_user_by_username db username =
     scalar_one_or_none (filter (\<lambda>u. u_username u = username) (users db))"

definition get_user_by_email :: "database \<Rightarrow> string \<Rightarrow> exn + user option" where
  "get_user_by_email db email =
     scalar_one_or_none (filter (\<lambda>u. u_email u = email) (users db))"

definition get_user_by_id :: "database \<Rightarrow> int \<Rightarrow> exn + user option" where
  "get_user_by_id db user_id =
     scalar_one_or_none (filter (\<lambda>u. u_id u = user_id) (users db))"

text \<open>
  \<^verbatim>\<open>update_user\<close> opens \<open>session\<close> (\<^verbatim>\<open>dal.py\<close>, line 142) and then calls
  \<^verbatim>\<open>self.get_user_by_id\<close> (line 143), which runs its query in a session of its own
  (line 137) and closes that session when it returns. The object that comes back is
  detached: it is in the identity map of no open session, and the assignments to its
  attributes change the object only. When \<open>session\<close> is committed (line 153) it has had
  nothing added, loaded or deleted, so the commit writes nothing: the method returns
  the changed object, and the row stays as it was. \<^verbatim>\<open>update_mailing_list\<close>,
  \<^verbatim>\<open>update_template\<close> and \<^verbatim>\<open>update_mailing\<close> below are written the same way.
\<close>

definition update_user :: "database \<Rightarrow> int \<Rightarrow> string option \<Rightarrow> string option
    \<Rightarrow> string option \<Rightarrow> bool option \<Rightarrow> database \<times> (exn + user option)" where
  "update_user db user_id username hashed_password email is_admin =
     (let session = get_async_session in
      case get_user_by_id db user_id of
        Inl e \<Rightarrow> (db, Inl e)
      | Inr None \<Rightarrow> (db, Inr None)
      | Inr (Some user) \<Rightarrow>
          (let user = (if truthy username then user\<lparr>u_username := the username\<rparr> else user);
               user = (if truthy hashed_password
                       then user\<lparr>u_hashed_password := the hashed_password\<rparr> else user);
               user = (if truthy email then user\<lparr>u_email := the email\<rparr> else user);
               user = (case is_admin of None \<Rightarrow> user | Some a \<Rightarrow> user\<lparr>u_is_admin := a\<rparr>)
           in case commit session db of
                Inl e \<Rightarrow> (db, Inl e)
              | Inr db' \<Rightarrow> (db', Inr (Some user))))"

definition get_all_users :: "database \<Rightarrow> user list" where
  "get_all_users db = users db"

text \<open>
  \<^verbatim>\<open>session.delete\<close> accepts a detached object: it attaches the object to the session
  and marks it and its cascade as deleted.
\<close>

definition delete_user :: "database \<Rightarrow> int \<Rightarrow> database \<times> (exn + bool)" where
  "delete_user db user_id =
     (let session = get_async_session in
      case get_user_by_id db user_id of
        Inl e \<Rightarrow> (db, Inl e)
      | Inr None \<Rightarrow> (db, Inr False)
      | Inr (Some user) \<Rightarrow>
          (let session = session_delete db session (UserRow user)
           in case commit session db of
                Inl e \<Rightarrow> (db, Inl e)
              | Inr db' \<Rightarrow> (db', Inr True)))"

subsection \<open>MailingListDAO\<close>

definition create_mailing_list :: "database \<Rightarrow> string \<Rightarrow> int
    \<Rightarrow> database \<times> (exn + mailing_list)" where
  "create_mailing_list db name user_id =
     (let session = get_async_session;
          new_mailing_list = \<lparr>ml_id = next_id (map ml_id (mailing_lists db)),
                              ml_name = name, ml_user_id = user_id\<rparr>;
          session = session_add session (MailingListRow new_mailing_list)
      in case commit session db of
           Inl e \<Rightarrow> (db, Inl e)
         | Inr db' \<Rightarrow> (db', Inr new_mailing_list))"

definition get_mailing_list_by_id :: "database \<Rightarrow> int \<Rightarrow> exn + mailing_list option" where
  "get_mailing_list_by_id db mailing_list_id =
     scalar_one_or_none (filter (\<lambda>l. ml_id l = mailing_list_id) (mailing_lists db))"

definition get_mailing_lists_by_user_id :: "database \<Rightarrow> int \<Rightarrow> mailing_list list" where
  "get_mailing_lists_by_user_id db user_id =
     filter (\<lambda>l. ml_user_id l = user_id) (mailing_lists db)"

definition update_mailing_list :: "database \<Rightarrow> int \<Rightarrow> string option
    \<Rightarrow> database \<times> (exn + mailing_list option)" where
  "update_mailing_list db mailing_list_id name =
     (let session = get_async_session in
      case get_mailing_list_by_id db mailing_list_id of
        Inl e \<Rightarrow> (db, Inl e)
      | Inr None \<Rightarrow> (db, Inr None)
      | Inr (Some mailing_list) \<Rightarrow>
          (if truthy name
           then (let mailing_list = mailing_list\<lparr>ml_name := the name\<rparr>
                 in case commit session db of
                      Inl e \<Rightarrow> (db, Inl e)
                    | Inr db' \<Rightarrow> (db', Inr (Some mailing_list)))
           else (db, Inr None)))"

definition delete_mailing_list :: "database \<Rightarrow> int \<Rightarrow> database \<times> (exn + bool)" where
  "delete_mailing_list db mailing_list_id =
     (let session = get_async_session in
      case get_mailing_list_by_id db mailing_list_id of
        Inl e \<Rightarrow> (db, Inl e)
      | Inr None \<Rightarrow> (db, Inr False)
      | Inr (Some mailing_list) \<Rightarrow>
          (let session = session_delete db session (MailingListRow mailing_list)
           in case commit session db of
                Inl e \<Rightarrow> (db, Inl e)
              | Inr db' \<Rightarrow> (db', Inr True)))"

subsection \<open>SubscriberDAO\<close>

definition create_subscriber :: "database \<Rightarrow> string \<Rightarrow> int
    \<Rightarrow> database \<times> (exn + subscriber)" where
  "create_subscriber db email mailing_list_id =
     (let session = get_async_session;
          new_subscriber = \<lparr>s_id = next_id (map s_id (subscribers db)), s_email = email,
                            s_mailing_list_id = mailing_list_id\<rparr>;
          session = session_add session (SubscriberRow new_subscriber)
      in case commit session db of
           Inl e \<Rightarrow> (db, Inl e)
         | Inr db' \<Rightarrow> (db', Inr new_subscriber))"

definition get_subscriber_by_email :: "database \<Rightarrow> string \<Rightarrow> int
    \<Rightarrow> exn + subscriber option" where
  "get_subscriber_by_email db email mailing_list_id =
     scalar_one_or_none
       (filter (\<lambda>s. s_email s = email \<and> s_mailing_list_id s = mailing_list_id)
          (subscribers db))"

definition get_subscribers_by_mailing_list_id :: "database \<Rightarrow> int \<Rightarrow> subscriber list" where
  "get_subscribers_by_mailing_list_id db mailing_list_id =
     filter (\<lambda>s. s_mailing_list_id s = mailing_list_id) (subscribers db)"

definition get_subscriber_by_id :: "database \<Rightarrow> int \<Rightarrow> exn + subscriber option" where
  "get_subscriber_by_id db subscriber_id =
     scalar_one_or_none (filter (\<lambda>s. s_id s = subscriber_id) (subscribers db))"

definition delete_subscriber :: "database \<Rightarrow> int \<Rightarrow> database \<times> (exn + bool)" where
  "delete_subscriber db subscriber_id =
     (let session = get_async_session in
      case get_subscriber_by_id db subscriber_id of
        Inl e \<Rightarrow> (db, Inl e)
      | Inr None \<Rightarrow> (db, Inr False)
      | Inr (Some subscriber) \<Rightarrow>
          (let session = session_delete db session (SubscriberRow subscriber)
           in case commit session db of
                Inl e \<Rightarrow> (db, Inl e)
              | Inr db' \<Rightarrow> (db', Inr True)))"

subsection \<open>TemplateDAO\<close>

definition create_template :: "database \<Rightarrow> string \<Rightarrow> string \<Rightarrow> int
    \<Rightarrow> database \<times> (exn + template)" where
  "create_template db name content user_id =
     (let session = get_async_session;
          new_template = \<lparr>t_id = next_id (map t_id (templates db)), t_name = name,
                          t_content = content, t_user_id = user_id\<rparr>;
          session = session_add session (TemplateRow new_template)
      in case commit session db of
           Inl e \<Rightarrow> (db, Inl e)
         | Inr db' \<Rightarrow> (db', Inr new_template))"

definition get_template_by_id :: "database \<Rightarrow> int \<Rightarrow> exn + template option" where
  "get_template_by_id db template_id =
     scalar_one_or_none (filter (\<lambda>t. t_id t = template_id) (templates db))"

definition get_templates_by_user_id :: "database \<Rightarrow> int \<Rightarrow> template list" where
  "get_templates_by_user_id db user_id =
     filter (\<lambda>t. t_user_id t = user_id) (templates db)"

definition update_template :: "database \<Rightarrow> int \<Rightarrow> string option \<Rightarrow> string option
    \<Rightarrow> database \<times> (exn + template option)" where
  "update_template db template_id name content =
     (let session = get_async_session in
      case get_template_by_id db template_id of
        Inl e \<Rightarrow> (db, Inl e)
      | Inr None \<Rightarrow> (db, Inr None)
      | Inr (Some template) \<Rightarrow>
          (let template = (if truthy name then template\<lparr>t_name := the name\<rparr> else template);
               template = (if truthy content then template\<lparr>t_content := the content\<rparr>
                           else template)
           in case commit session db of
                Inl e \<Rightarrow> (db, Inl e)
              | Inr db' \<Rightarrow> (db', Inr (Some template))))"

definition delete_template :: "database \<Rightarrow> int \<Rightarrow> database \<times> (exn + bool)" where
  "delete_template db template_id =
     (let session = get_async_session in
      case get_template_by_id db template_id of
        Inl e \<Rightarrow> (db, Inl e)
      | Inr None \<Rightarrow> (db, Inr False)
      | Inr (Some template) \<Rightarrow>
          (let session = session_delete db session (TemplateRow template)
           in case commit session db of
                Inl e \<Rightarrow> (db, Inl e)
              | Inr db' \<Rightarrow> (db', Inr True)))"

subsection \<open>MailingDAO\<close>

definition create_mailing :: "database \<Rightarrow> int \<Rightarrow> int \<Rightarrow> int \<Rightarrow> int
    \<Rightarrow> database \<times> (exn + mailing)" where
  "create_mailing db mailing_list_id template_id scheduled_at user_id =
     (let session = get_async_session;
          new_mailing = \<lparr>m_id = next_id (map m_id (mailings db)),
                         m_mailing_list_id = mailing_list_id, m_template_id = template_id,
                         m_scheduled_at = Some scheduled_at, m_sent_at = None,
                         m_user_id = user_id\<rparr>;
          session = session_add session (MailingRow new_mailing)
      in case commit session db of
           Inl e \<Rightarrow> (db, Inl e)
         | Inr db' \<Rightarrow> (db', Inr new_mailing))"

definition get_mailing_by_id :: "database \<Rightarrow> int \<Rightarrow> exn + mailing option" where
  "get_mailing_by_id db mailing_id =
     scalar_one_or_none (filter (\<lambda>m. m_id m = mailing_id) (mailings db))"

definition update_mailing :: "database \<Rightarrow> int \<Rightarrow> int
    \<Rightarrow> database \<times> (exn + mailing option)" where
  "update_mailing db mailing_id sent_at =
     (let session = get_async_session in
      case get_mailing_by_id db mailing_id of
        Inl e \<Rightarrow> (db, Inl e)
      | Inr None \<Rightarrow> (db, Inr None)
      | Inr (Some mailing) \<Rightarrow>
          (let mailing = mailing\<lparr>m_sent_at := Some sent_at\<rparr>
           in case commit session db of
                Inl e \<Rightarrow> (db, Inl e)
              | Inr db' \<Rightarrow> (db', Inr (Some mailing))))"

definition get_mailings_by_user_id :: "database \<Rightarrow> int \<Rightarrow> mailing list" where
  "get_mailings_by_user_id db user_id =
     filter (\<lambda>m. m_user_id m = user_id) (mailings db)"

definition get_all_mailings :: "database \<Rightarrow> mailing list" where
  "get_all_mailings db = mailings db"

section \<open>Credentials and tokens (api.py)\<close>

text \<open>
  What the code reads from outside the repository is collected in one record: the
  environment variable \<^verbatim>\<open>SECRET_KEY\<close> (absent when it is not set), the clock
  (\<^verbatim>\<open>datetime.utcnow()\<close>, in whole seconds), the keyed hash that signs a token, and the
  two functions of the password context. Nothing is assumed about the three functions.
\<close>

type_synonym claims = "(string \<times> int) list"

record environment =
  SECRET_KEY :: "string option"
  utcnow :: int
  hmac :: "string \<Rightarrow> string \<Rightarrow> claims \<Rightarrow> nat"
  pwd_hash :: "string \<Rightarrow> string"
  pwd_verify :: "string \<Rightarrow> string \<Rightarrow> bool"

definition get_hashed_password :: "environment \<Rightarrow> string \<Rightarrow> string" where
  "get_hashed_password env password = pwd_hash env password"

definition verify_password :: "environment \<Rightarrow> string \<Rightarrow> string \<Rightarrow> bool" where
  "verify_password env password hashed_password = pwd_verify env password hashed_password"

definition ALGORITHM :: string where
  "ALGORITHM = ''HS256''"

definition ACCESS_TOKEN_EXPIRE_MINUTES :: int where
  "ACCESS_TOKEN_EXPIRE_MINUTES = 30"

text \<open>
  A token as the decoder sees it: a string that does not parse, or a header naming the
  algorithm, a payload and a signature. The payload is a dictionary from claim names
  to integers (\<^verbatim>\<open>user_id\<close>, and \<^verbatim>\<open>exp\<close> in seconds since the epoch).
\<close>

datatype token =
    Malformed
  | JWS string claims nat

text \<open>
  \<^verbatim>\<open>jwt.encode\<close> signs the payload with the key; it raises when there is no key.
  \<^verbatim>\<open>jwt.decode\<close> raises when the token does not parse, when there is no key, when the
  header's algorithm is not among the accepted ones, when the signature is not the
  keyed hash of header and payload, and when the payload has an \<^verbatim>\<open>exp\<close> that lies
  before the current time; otherwise it returns the payload.
\<close>

definition jwt_encode :: "environment \<Rightarrow> claims \<Rightarrow> string option \<Rightarrow> string \<Rightarrow> exn + token" where
  "jwt_encode env to_encode key algorithm =
     (case key of
        None \<Rightarrow> Inl JWTError
      | Some k \<Rightarrow> Inr (JWS algorithm to_encode (hmac env k algorithm to_encode)))"

fun jwt_decode :: "environment \<Rightarrow> token \<Rightarrow> string option \<Rightarrow> string list \<Rightarrow> exn + claims" where
  "jwt_decode env Malformed key algorithms = Inl JWTError"
| "jwt_decode env (JWS alg payload signature) None algorithms = Inl JWTError"
| "jwt_decode env (JWS alg payload signature) (Some k) algorithms =
     (if alg \<notin> set algorithms then Inl JWTError
      else if signature \<noteq> hmac env k alg payload then Inl JWTError
      else (case map_of payload ''exp'' of
              None \<Rightarrow> Inr payload
            | Some exp \<Rightarrow> if exp < utcnow env then Inl ExpiredSignatureError
                          else Inr payload))"

text \<open>
  \<open>expires_delta\<close> is in seconds; its default is
  \<^verbatim>\<open>timedelta(minutes=ACCESS_TOKEN_EXPIRE_MINUTES)\<close>.
\<close>

definition default_expires_delta :: int where
  "default_expires_delta = ACCESS_TOKEN_EXPIRE_MINUTES * 60"

definition create_access_token :: "environment \<Rightarrow> claims \<Rightarrow> int \<Rightarrow> exn + token" where
  "create_access_token env data expires_delta =
     (let to_encode = data;
          expire = utcnow env + expires_delta;
          to_encode = AList.update ''exp'' expire to_encode
      in jwt_encode env to_encode (SECRET_KEY env) ALGORITHM)"

definition verify_token :: "environment \<Rightarrow> token \<Rightarrow> claims option" where
  "verify_token env token =
     (case jwt_decode env token (SECRET_KEY env) [ALGORITHM] of
        Inl e \<Rightarrow> None
      | Inr payload \<Rightarrow> Some payload)"

section \<open>Access control (api.py)\<close>

text \<open>
  \<^verbatim>\<open>OAuth2PasswordBearer\<close>: the bearer credential of the request, or 401 when the
  request carries none.
\<close>

definition oauth2_scheme :: "token option \<Rightarrow> exn + token" where
  "oauth2_scheme authorization =
     (case authorization of
        None \<Rightarrow> Inl (HTTPException 401 ''Not authenticated'')
      | Some token \<Rightarrow> Inr token)"

definition get_current_user :: "environment \<Rightarrow> database \<Rightarrow> token \<Rightarrow> exn + user" where
  "get_current_user env db token =
     (case verify_token env token of
        None \<Rightarrow> Inl (HTTPException 401 ''Invalid token'')
      | Some payload \<Rightarrow>
          (case map_of payload ''user_id'' of
             None \<Rightarrow> Inl (HTTPException 401 ''Invalid token'')
           | Some user_id \<Rightarrow>
               (case get_user_by_id db user_id of
                  Inl e \<Rightarrow> Inl e
                | Inr None \<Rightarrow> Inl (HTTPException 401 ''Invalid user'')
                | Inr (Some user) \<Rightarrow> Inr user)))"

definition get_current_admin :: "user \<Rightarrow> exn + user" where
  "get_current_admin current_user =
     (if \<not> u_is_admin current_user
      then Inl (HTTPException 403 ''You must be an admin'')
      else Inr current_user)"

text \<open>
  The dependency of every authenticated route: the credential of the request, then
  \<^verbatim>\<open>get_current_user\<close>.
\<close>

definition authenticate :: "environment \<Rightarrow> database \<Rightarrow> token option \<Rightarrow> exn + user" where
  "authenticate env db authorization =
     (case oauth2_scheme authorization of
        Inl e \<Rightarrow> Inl e
      | Inr token \<Rightarrow> get_current_user env db token)"

text \<open>
  The status code of a response: that of the \<^verbatim>\<open>HTTPException\<close>, 500 for any other
  exception, and the route's success code otherwise.
\<close>

fun status_code :: "nat \<Rightarrow> exn + 'a \<Rightarrow> nat" where
  "status_code ok (Inr r) = ok"
| "status_code ok (Inl (HTTPException c d)) = c"
| "status_code ok (Inl e) = 500"

section \<open>Routes (api.py)\<close>

text \<open>
  A route handler takes its resolved dependencies (\<open>current_user\<close>, \<open>current_admin\<close>) as
  arguments, as in the source. A handler whose name is also the name of a method of a
  data access object carries the suffix \<open>_api\<close>.
\<close>

record user_create =
  uc_username :: string
  uc_password :: string
  uc_email :: string
  uc_is_admin :: bool

record subscriber_create =
  sc_email :: string
  sc_mailing_list_id :: int

record template_create =
  tc_name :: string
  tc_content :: string

definition login_for_access_token :: "environment \<Rightarrow> database \<Rightarrow> string \<Rightarrow> string
    \<Rightarrow> exn + (token \<times> string)" where
  "login_for_access_token env db form_username form_password =
     (case get_user_by_username db form_username of
        Inl e \<Rightarrow> Inl e
      | Inr None \<Rightarrow> Inl (HTTPException 401 ''Invalid username or password'')
      | Inr (Some user) \<Rightarrow>
          (if \<not> verify_password env form_password (u_hashed_password user)
           then Inl (HTTPException 401 ''Invalid username or password'')
           else (case create_access_token env [(''user_id'', u_id user)]
                        default_expires_delta of
                   Inl e \<Rightarrow> Inl e
                 | Inr access_token \<Rightarrow> Inr (access_token, ''bearer''))))"

definition create_new_user :: "environment \<Rightarrow> database \<Rightarrow> user_create
    \<Rightarrow> database \<times> (exn + user)" where
  "create_new_user env db user =
     (let hashed_password = get_hashed_password env (uc_password user)
      in create_user db (uc_username user) hashed_password (uc_email user)
           (uc_is_admin user))"

definition read_current_user :: "user \<Rightarrow> user" where
  "read_current_user current_user = current_user"

definition update_user_api :: "environment \<Rightarrow> database \<Rightarrow> int \<Rightarrow> user_create \<Rightarrow> user
    \<Rightarrow> database \<times> (exn + user)" where
  "update_user_api env db user_id user current_admin =
     (let hashed_password = get_hashed_password env (uc_password user)
      in case update_user db user_id (Some (uc_username user)) (Some hashed_password)
                (Some (uc_email user)) (Some (uc_is_admin user)) of
           (db', Inl e) \<Rightarrow> (db', Inl e)
         | (db', Inr None) \<Rightarrow> (db', Inl (HTTPException 404 ''User not found''))
         | (db', Inr (Some updated_user)) \<Rightarrow> (db', Inr updated_user))"

definition read_all_users :: "database \<Rightarrow> user \<Rightarrow> user list" where
  "read_all_users db current_admin = get_all_users db"

definition delete_user_api :: "database \<Rightarrow> int \<Rightarrow> user \<Rightarrow> database \<times> (exn + unit)" where
  "delete_user_api db user_id current_admin =
     (case delete_user db user_id of
        (db', Inl e) \<Rightarrow> (db', Inl e)
      | (db', Inr False) \<Rightarrow> (db', Inl (HTTPException 404 ''User not found''))
      | (db', Inr True) \<Rightarrow> (db', Inr ()))"

definition create_new_mailing_list :: "database \<Rightarrow> string \<Rightarrow> user
    \<Rightarrow> database \<times> (exn + mailing_list)" where
  "create_new_mailing_list db name current_user =
     create_mailing_list db name (u_id current_user)"

definition read_all_mailing_lists :: "database \<Rightarrow> user \<Rightarrow> mailing_list list" where
  "read_all_mailing_lists db current_user =
     get_mailing_lists_by_user_id db (u_id current_user)"

definition read_mailing_list :: "database \<Rightarrow> int \<Rightarrow> user \<Rightarrow> exn + mailing_list" where
  "read_mailing_list db mailing_list_id current_user =
     (case get_mailing_list_by_id db mailing_list_id of
        Inl e \<Rightarrow> Inl e
      | Inr None \<Rightarrow> Inl (HTTPException 404 ''Mailing list not found'')
      | Inr (Some mailing_list) \<Rightarrow>
          (if ml_user_id mailing_list \<noteq> u_id current_user
           then Inl (HTTPException 404 ''Mailing list not found'')
           else Inr mailing_list))"

text \<open>
  The update route calls the data access object first and compares the owner of what
  comes back afterwards.
\<close>

definition update_mailing_list_api :: "database \<Rightarrow> int \<Rightarrow> string \<Rightarrow> user
    \<Rightarrow> database \<times> (exn + mailing_list)" where
  "update_mailing_list_api db mailing_list_id name current_user =
     (case update_mailing_list db mailing_list_id (Some name) of
        (db', Inl e) \<Rightarrow> (db', Inl e)
      | (db', Inr None) \<Rightarrow> (db', Inl (HTTPException 404 ''Mailing list not found''))
      | (db', Inr (Some mailing_list_update)) \<Rightarrow>
          (if ml_user_id mailing_list_update \<noteq> u_id current_user
           then (db', Inl (HTTPException 404 ''Mailing list not found''))
           else (db', Inr mailing_list_update)))"

definition delete_mailing_list_api :: "database \<Rightarrow> int \<Rightarrow> user
    \<Rightarrow> database \<times> (exn + unit)" where
  "delete_mailing_list_api db mailing_list_id current_user =
     (case get_mailing_list_by_id db mailing_list_id of
        Inl e \<Rightarrow> (db, Inl e)
      | Inr None \<Rightarrow> (db, Inl (HTTPException 404 ''Mailing list not found''))
      | Inr (Some mailing_list) \<Rightarrow>
          (if ml_user_id mailing_list \<noteq> u_id current_user
           then (db, Inl (HTTPException 404 ''Mailing list not found''))
           else (case delete_mailing_list db mailing_list_id of
                   (db', Inl e) \<Rightarrow> (db', Inl e)
                 | (db', Inr False) \<Rightarrow>
                     (db', Inl (HTTPException 404 ''Mailing list not found''))
                 | (db', Inr True) \<Rightarrow> (db', Inr ()))))"

definition create_new_subscriber :: "database \<Rightarrow> subscriber_create \<Rightarrow> user
    \<Rightarrow> database \<times> (exn + subscriber)" where
  "create_new_subscriber db subscriber current_user =
     (case get_mailing_list_by_id db (sc_mailing_list_id subscriber) of
        Inl e \<Rightarrow> (db, Inl e)
      | Inr None \<Rightarrow> (db, Inl (HTTPException 404 ''Mailing list not found''))
      | Inr (Some mailing_list) \<Rightarrow>
          (if ml_user_id mailing_list \<noteq> u_id current_user
           then (db, Inl (HTTPException 404 ''Mailing list not found''))
           else create_subscriber db (sc_email subscriber)
                  (sc_mailing_list_id subscriber)))"

definition read_all_subscribers :: "database \<Rightarrow> int \<Rightarrow> user \<Rightarrow> exn + subscriber list" where
  "read_all_subscribers db mailing_list_id current_user =
     (case get_mailing_list_by_id db mailing_list_id of
        Inl e \<Rightarrow> Inl e
      | Inr None \<Rightarrow> Inl (HTTPException 404 ''Mailing list not found'')
      | Inr (Some mailing_list) \<Rightarrow>
          (if ml_user_id mailing_list \<noteq> u_id current_user
           then Inl (HTTPException 404 ''Mailing list not found'')
           else Inr (get_subscribers_by_mailing_list_id db mailing_list_id)))"

definition delete_subscriber_api :: "database \<Rightarrow> int \<Rightarrow> user
    \<Rightarrow> database \<times> (exn + unit)" where
  "delete_subscriber_api db subscriber_id current_user =
     (case get_subscriber_by_id db subscriber_id of
        Inl e \<Rightarrow> (db, Inl e)
      | Inr None \<Rightarrow> (db, Inl (HTTPException 404 ''Subscriber not found''))
      | Inr (Some subscriber) \<Rightarrow>
          (case get_mailing_list_by_id db (s_mailing_list_id subscriber) of
             Inl e \<Rightarrow> (db, Inl e)
           | Inr None \<Rightarrow> (db, Inl (HTTPException 404 ''Mailing list not found''))
           | Inr (Some mailing_list) \<Rightarrow>
               (if ml_user_id mailing_list \<noteq> u_id current_user
                then (db, Inl (HTTPException 404 ''Mailing list not found''))
                else (case delete_subscriber db subscriber_id of
                        (db', Inl e) \<Rightarrow> (db', Inl e)
                      | (db', Inr False) \<Rightarrow>
                          (db', Inl (HTTPException 404 ''Subscriber not found''))
                      | (db', Inr True) \<Rightarrow> (db', Inr ())))))"

definition create_new_template :: "database \<Rightarrow> template_create \<Rightarrow> user
    \<Rightarrow> database \<times> (exn + template)" where
  "create_new_template db template current_user =
     create_template db (tc_name template) (tc_content template) (u_id current_user)"

definition read_all_templates :: "database \<Rightarrow> user \<Rightarrow> template list" where
  "read_all_templates db current_user = get_templates_by_user_id db (u_id current_user)"

definition read_template :: "database \<Rightarrow> int \<Rightarrow> user \<Rightarrow> exn + template" where
  "read_template db template_id current_user =
     (case get_template_by_id db template_id of
        Inl e \<Rightarrow> Inl e
      | Inr None \<Rightarrow> Inl (HTTPException 404 ''Template not found'')
      | Inr (Some template) \<Rightarrow>
          (if t_user_id template \<noteq> u_id current_user
           then Inl (HTTPException 404 ''Template not found'')
           else Inr template))"

definition update_template_api :: "database \<Rightarrow> int \<Rightarrow> template_create \<Rightarrow> user
    \<Rightarrow> database \<times> (exn + template)" where
  "update_template_api db template_id template current_user =
     (case update_template db template_id (Some (tc_name template))
             (Some (tc_content template)) of
        (db', Inl e) \<Rightarrow> (db', Inl e)
      | (db', Inr None) \<Rightarrow> (db', Inl (HTTPException 404 ''Template not found''))
      | (db', Inr (Some template_update)) \<Rightarrow>
          (if t_user_id template_update \<noteq> u_id current_user
           then (db', Inl (HTTPException 404 ''Template not found''))
           else (db', Inr template_update)))"

definition delete_template_api :: "database \<Rightarrow> int \<Rightarrow> user
    \<Rightarrow> database \<times> (exn + unit)" where
  "delete_template_api db template_id current_user =
     (case get_template_by_id db template_id of
        Inl e \<Rightarrow> (db, Inl e)
      | Inr None \<Rightarrow> (db, Inl (HTTPException 404 ''Template not found''))
      | Inr (Some template) \<Rightarrow>
          (if t_user_id template \<noteq> u_id current_user
           then (db, Inl (HTTPException 403 ''You are not allowed to delete this template''))
           else (case delete_template db template_id of
                   (db', Inl e) \<Rightarrow> (db', Inl e)
                 | (db', Inr False) \<Rightarrow> (db', Inl (HTTPException 404 ''Template not found''))
                 | (db', Inr True) \<Rightarrow> (db', Inr ()))))"

section \<open>Constraints and reachable states\<close>

text \<open>
  The constraints the schema declares and every engine enforces: the primary key of
  each table and the three \<^verbatim>\<open>unique=True\<close> columns.
\<close>

definition constraints :: "database \<Rightarrow> bool" where
  "constraints db \<longleftrightarrow>
     distinct (map u_id (users db)) \<and>
     distinct (map u_username (users db)) \<and>
     distinct (map u_email (users db)) \<and>
     distinct (map ml_id (mailing_lists db)) \<and>
     distinct (map s_id (subscribers db)) \<and>
     distinct (map s_email (subscribers db)) \<and>
     distinct (map t_id (templates db)) \<and>
     distinct (map m_id (mailings db))"

text \<open>
  The states of the database that the persistence operations can produce, starting
  from the empty tables that \<^verbatim>\<open>Base.metadata.create_all\<close> creates. Every method of the
  five data access objects that writes is a step, with any arguments, whether it
  succeeds or raises.
\<close>

inductive reachable :: "database \<Rightarrow> bool" where
  initial: "reachable (empty_database fk)"
| step_create_user:
    "reachable db \<Longrightarrow> reachable (fst (create_user db username hashed_password email is_admin))"
| step_update_user:
    "reachable db \<Longrightarrow>
     reachable (fst (update_user db user_id username' hashed_password' email' is_admin'))"
| step_delete_user:
    "reachable db \<Longrightarrow> reachable (fst (delete_user db user_id))"
| step_create_mailing_list:
    "reachable db \<Longrightarrow> reachable (fst (create_mailing_list db name user_id))"
| step_update_mailing_list:
    "reachable db \<Longrightarrow> reachable (fst (update_mailing_list db mailing_list_id name'))"
| step_delete_mailing_list:
    "reachable db \<Longrightarrow> reachable (fst (delete_mailing_list db mailing_list_id))"
| step_create_subscriber:
    "reachable db \<Longrightarrow> reachable (fst (create_subscriber db email mailing_list_id))"
| step_delete_subscriber:
    "reachable db \<Longrightarrow> reachable (fst (delete_subscriber db subscriber_id))"
| step_create_template:
    "reachable db \<Longrightarrow> reachable (fst (create_template db name content user_id))"
| step_update_template:
    "reachable db \<Longrightarrow> reachable (fst (update_template db template_id name' content'))"
| step_delete_template:
    "reachable db \<Longrightarrow> reachable (fst (delete_template db template_id))"
| step_create_mailing:
    "reachable db \<Longrightarrow>
     reachable (fst (create_mailing db mailing_list_id template_id scheduled_at user_id))"
| step_update_mailing:
    "reachable db \<Longrightarrow> reachable (fst (update_mailing db mailing_id sent_at))"

section \<open>A concrete environment and a concrete database\<close>

text \<open>
  The theorems below are evaluated on these: an environment whose three functions are
  simple stand-ins, and a database with two users, Alice (1, an admin) and Bob (2). Each owns a
  mailing list with one subscriber and a template; mailing 1 is Alice's, mailing 2 is
  Bob's but sends to Alice's list, mailing 3 is Bob's.
\<close>

definition sample_hmac :: "string \<Rightarrow> string \<Rightarrow> claims \<Rightarrow> nat" where
  "sample_hmac k alg payload = length k + length alg + length payload"

definition sample_pwd_hash :: "string \<Rightarrow> string" where
  "sample_pwd_hash password = ''$2b$'' @ password"

definition sample_pwd_verify :: "string \<Rightarrow> string \<Rightarrow> bool" where
  "sample_pwd_verify password hashed_password \<longleftrightarrow> hashed_password = ''$2b$'' @ password"

definition sample_environment :: environment where
  "sample_environment =
     \<lparr>SECRET_KEY = Some ''secret'', utcnow = 1000, hmac = sample_hmac,
      pwd_hash = sample_pwd_hash, pwd_verify = sample_pwd_verify\<rparr>"

definition alice :: user where
  "alice = \<lparr>u_id = 1, u_username = ''alice'', u_hashed_password = ''$2b$a'',
            u_email = ''alice@example.org'', u_is_active = True, u_is_admin = True\<rparr>"

definition bob :: user where
  "bob = \<lparr>u_id = 2, u_username = ''bob'', u_hashed_password = ''$2b$b'',
          u_email = ''bob@example.org'', u_is_active = True, u_is_admin = False\<rparr>"

definition news :: mailing_list where
  "news = \<lparr>ml_id = 1, ml_name = ''news'', ml_user_id = 1\<rparr>"

definition offers :: mailing_list where
  "offers = \<lparr>ml_id = 2, ml_name = ''offers'', ml_user_id = 2\<rparr>"

definition carol :: subscriber where
  "carol = \<lparr>s_id = 1, s_email = ''carol@example.org'', s_mailing_list_id = 1\<rparr>"

definition dave :: subscriber where
  "dave = \<lparr>s_id = 2, s_email = ''dave@example.org'', s_mailing_list_id = 2\<rparr>"

definition hello :: template where
  "hello = \<lparr>t_id = 1, t_name = ''hello'', t_content = ''Hello!'', t_user_id = 1\<rparr>"

definition sale :: template where
  "sale = \<lparr>t_id = 2, t_name = ''sale'', t_content = ''Sale!'', t_user_id = 2\<rparr>"

definition mailing1 :: mailing where
  "mailing1 = \<lparr>m_id = 1, m_mailing_list_id = 1, m_template_id = 1,
               m_scheduled_at = Some 2000, m_sent_at = None, m_user_id = 1\<rparr>"

definition mailing2 :: mailing where
  "mailing2 = \<lparr>m_id = 2, m_mailing_list_id = 1, m_template_id = 2,
               m_scheduled_at = Some 2000, m_sent_at = None, m_user_id = 2\<rparr>"

definition mailing3 :: mailing where
  "mailing3 = \<lparr>m_id = 3, m_mailing_list_id = 2, m_template_id = 2,
               m_scheduled_at = Some 3000, m_sent_at = None, m_user_id = 2\<rparr>"

definition sample_database :: database where
  "sample_database =
     \<lparr>users = [alice, bob], mailing_lists = [news, offers], subscribers = [carol, dave],
      templates = [hello, sale], mailings = [mailing1, mailing2, mailing3],
      foreign_keys = True\<rparr>"

section \<open>Basic facts\<close>

subsection \<open>Sessions and queries\<close>

lemma commit_empty_session: "commit get_async_session db = Inr db"
  by (simp add: commit_def get_async_session_def)

lemma commit_deleted:
  "commit (session_delete db0 get_async_session x) db = flush delete_row (cascade db0 x) db"
  by (simp add: commit_def get_async_session_def session_delete_def)

lemma commit_new:
  "commit (session_add get_async_session x) db = insert_row x db"
  by (simp add: commit_def get_async_session_def session_add_def split: sum.splits)

lemma scalar_one_or_none_Some: "scalar_one_or_none rs = Inr (Some r) \<longleftrightarrow> rs = [r]"
  by (cases rs rule: scalar_one_or_none.cases) auto

lemma scalar_one_or_none_None: "scalar_one_or_none rs = Inr None \<longleftrightarrow> rs = []"
  by (cases rs rule: scalar_one_or_none.cases) auto

lemma filter_key_distinct:
  "distinct (map f xs) \<Longrightarrow> x \<in> set xs \<Longrightarrow> filter (\<lambda>v. f v = f x) xs = [x]"
proof (induction xs)
  case Nil
  then show ?case by simp
next
  case (Cons a xs)
  show ?case
  proof (cases "a = x")
    case True
    with Cons.prems have "f x \<notin> f ` set xs" by simp
    then have "filter (\<lambda>v. f v = f x) xs = []"
      by (simp add: filter_empty_conv) (metis imageI)
    with True show ?thesis by simp
  next
    case False
    with Cons.prems have "x \<in> set xs" and "f a \<noteq> f x" by auto
    with Cons show ?thesis by simp
  qed
qed

lemma filter_key_absent:
  "k \<notin> set (map f xs) \<Longrightarrow> filter (\<lambda>v. f v = k) xs = []"
  by (auto simp: filter_empty_conv)

lemma flush_delete_row_total: "\<exists>db'. flush delete_row xs db = Inr db'"
proof (induction xs arbitrary: db)
  case Nil
  then show ?case by simp
next
  case (Cons x xs)
  then show ?case by (cases x) simp_all
qed

lemma flush_delete_row_tables:
  assumes "flush delete_row xs db = Inr db'"
  shows "users db' = filter (\<lambda>v. \<forall>u. UserRow u \<in> set xs \<longrightarrow> u_id u \<noteq> u_id v) (users db)"
    and "mailing_lists db' =
         filter (\<lambda>v. \<forall>l. MailingListRow l \<in> set xs \<longrightarrow> ml_id l \<noteq> ml_id v) (mailing_lists db)"
    and "subscribers db' =
         filter (\<lambda>v. \<forall>s. SubscriberRow s \<in> set xs \<longrightarrow> s_id s \<noteq> s_id v) (subscribers db)"
    and "templates db' =
         filter (\<lambda>v. \<forall>t. TemplateRow t \<in> set xs \<longrightarrow> t_id t \<noteq> t_id v) (templates db)"
    and "mailings db' =
         filter (\<lambda>v. \<forall>m. MailingRow m \<in> set xs \<longrightarrow> m_id m \<noteq> m_id v) (mailings db)"
    and "foreign_keys db' = foreign_keys db"
  using assms
proof (induction xs arbitrary: db)
  case Nil
  {
    case 1 then show ?case by simp
  next
    case 2 then show ?case by simp
  next
    case 3 then show ?case by simp
  next
    case 4 then show ?case by simp
  next
    case 5 then show ?case by simp
  next
    case 6 then show ?case by simp
  }
next
  case (Cons x xs)
  {
    case 1 with Cons.IH(1) show ?case by (cases x) (auto intro!: filter_cong)
  next
    case 2 with Cons.IH(2) show ?case by (cases x) (auto intro!: filter_cong)
  next
    case 3 with Cons.IH(3) show ?case by (cases x) (auto intro!: filter_cong)
  next
    case 4 with Cons.IH(4) show ?case by (cases x) (auto intro!: filter_cong)
  next
    case 5 with Cons.IH(5) show ?case by (cases x) (auto intro!: filter_cong)
  next
    case 6 with Cons.IH(6) show ?case by (cases x) auto
  }
qed

lemma get_by_id_absent:
  "\<forall>v \<in> set xs. f v \<noteq> k \<Longrightarrow> scalar_one_or_none (filter (\<lambda>v. f v = k) xs) = Inr None"
  by (simp add: scalar_one_or_none_None filter_empty_conv)

lemma get_mailing_list_by_id_present:
  "constraints db \<Longrightarrow> l \<in> set (mailing_lists db) \<Longrightarrow>
   get_mailing_list_by_id db (ml_id l) = Inr (Some l)"
  by (simp add: get_mailing_list_by_id_def constraints_def filter_key_distinct)

lemma get_mailing_list_by_id_absent:
  "i \<notin> set (map ml_id (mailing_lists db)) \<Longrightarrow> get_mailing_list_by_id db i = Inr None"
  by (simp add: get_mailing_list_by_id_def filter_key_absent)

lemma get_template_by_id_present:
  "constraints db \<Longrightarrow> t \<in> set (templates db) \<Longrightarrow>
   get_template_by_id db (t_id t) = Inr (Some t)"
  by (simp add: get_template_by_id_def constraints_def filter_key_distinct)

lemma get_template_by_id_absent:
  "i \<notin> set (map t_id (templates db)) \<Longrightarrow> get_template_by_id db i = Inr None"
  by (simp add: get_template_by_id_def filter_key_absent)

lemma get_subscriber_by_id_present:
  "constraints db \<Longrightarrow> s \<in> set (subscribers db) \<Longrightarrow>
   get_subscriber_by_id db (s_id s) = Inr (Some s)"
  by (simp add: get_subscriber_by_id_def constraints_def filter_key_distinct)

lemma get_subscriber_by_id_absent:
  "i \<notin> set (map s_id (subscribers db)) \<Longrightarrow> get_subscriber_by_id db i = Inr None"
  by (simp add: get_subscriber_by_id_def filter_key_absent)

lemma get_user_by_id_present:
  "constraints db \<Longrightarrow> u \<in> set (users db) \<Longrightarrow> get_user_by_id db (u_id u) = Inr (Some u)"
  by (simp add: get_user_by_id_def constraints_def filter_key_distinct)

lemma get_user_by_id_absent:
  "i \<notin> set (map u_id (users db)) \<Longrightarrow> get_user_by_id db i = Inr None"
  by (simp add: get_user_by_id_def filter_key_absent)

lemma update_mailing_list_present:
  "constraints db \<Longrightarrow> l \<in> set (mailing_lists db) \<Longrightarrow>
   update_mailing_list db (ml_id l) name =
     (db, Inr (if truthy name then Some (l\<lparr>ml_name := the name\<rparr>) else None))"
  by (simp add: update_mailing_list_def get_mailing_list_by_id_present commit_empty_session)

lemma update_mailing_list_absent:
  "i \<notin> set (map ml_id (mailing_lists db)) \<Longrightarrow> update_mailing_list db i name = (db, Inr None)"
  by (simp add: update_mailing_list_def get_mailing_list_by_id_absent)

subsection \<open>The constraints hold in every reachable state\<close>

lemma next_id_fresh: "next_id ids \<notin> set ids"
proof
  assume "next_id ids \<in> set ids"
  then have "next_id ids \<le> Max (insert 0 (set ids))" by simp
  then show False by (simp add: next_id_def)
qed

lemma insert_row_constraints:
  "insert_row x db = Inr db' \<Longrightarrow> constraints db \<Longrightarrow> constraints db'"
  by (cases x) (auto simp: constraints_def split: if_splits)

lemma flush_delete_row_constraints:
  assumes "flush delete_row xs db = Inr db'" and "constraints db"
  shows "constraints db'"
  using assms(2) unfolding constraints_def flush_delete_row_tables [OF assms(1)]
  by (simp add: distinct_map_filter)

lemma create_preserves:
  assumes "constraints db"
  shows "constraints (fst (case commit (session_add get_async_session x) db of
                             Inl e \<Rightarrow> (db, Inl e) | Inr db' \<Rightarrow> (db', Inr r)))"
proof (cases "insert_row x db")
  case (Inl e)
  with assms show ?thesis by (simp add: commit_new)
next
  case (Inr db')
  with assms insert_row_constraints [OF Inr] show ?thesis by (simp add: commit_new)
qed

lemma delete_preserves:
  assumes "commit (session_delete db get_async_session x) db = Inr db'" and "constraints db"
  shows "constraints db'"
  using assms by (auto simp: commit_deleted dest: flush_delete_row_constraints)

lemma create_user_constraints:
  "constraints db \<Longrightarrow> constraints (fst (create_user db a b c d))"
  unfolding create_user_def Let_def by (rule create_preserves)

lemma create_mailing_list_constraints:
  "constraints db \<Longrightarrow> constraints (fst (create_mailing_list db a b))"
  unfolding create_mailing_list_def Let_def by (rule create_preserves)

lemma create_subscriber_constraints:
  "constraints db \<Longrightarrow> constraints (fst (create_subscriber db a b))"
  unfolding create_subscriber_def Let_def by (rule create_preserves)

lemma create_template_constraints:
  "constraints db \<Longrightarrow> constraints (fst (create_template db a b c))"
  unfolding create_template_def Let_def by (rule create_preserves)

lemma create_mailing_constraints:
  "constraints db \<Longrightarrow> constraints (fst (create_mailing db a b c d))"
  unfolding create_mailing_def Let_def by (rule create_preserves)

lemma update_user_unchanged: "fst (update_user db i a b c d) = db"
  by (simp add: update_user_def commit_empty_session Let_def split: sum.splits option.splits)

lemma update_mailing_list_unchanged: "fst (update_mailing_list db i a) = db"
  by (simp add: update_mailing_list_def commit_empty_session Let_def
      split: sum.splits option.splits)

lemma update_template_unchanged: "fst (update_template db i a b) = db"
  by (simp add: update_template_def commit_empty_session Let_def
      split: sum.splits option.splits)

lemma update_mailing_unchanged: "fst (update_mailing db i a) = db"
  by (simp add: update_mailing_def commit_empty_session Let_def
      split: sum.splits option.splits)

lemma delete_user_constraints: "constraints db \<Longrightarrow> constraints (fst (delete_user db i))"
  unfolding delete_user_def Let_def
  by (auto split: sum.splits option.splits dest: delete_preserves)

lemma delete_mailing_list_constraints:
  "constraints db \<Longrightarrow> constraints (fst (delete_mailing_list db i))"
  unfolding delete_mailing_list_def Let_def
  by (auto split: sum.splits option.splits dest: delete_preserves)

lemma delete_subscriber_constraints:
  "constraints db \<Longrightarrow> constraints (fst (delete_subscriber db i))"
  unfolding delete_subscriber_def Let_def
  by (auto split: sum.splits option.splits dest: delete_preserves)

lemma delete_template_constraints:
  "constraints db \<Longrightarrow> constraints (fst (delete_template db i))"
  unfolding delete_template_def Let_def
  by (auto split: sum.splits option.splits dest: delete_preserves)

lemma reachable_constraints: "reachable db \<Longrightarrow> constraints db"
proof (induction rule: reachable.induct)
  case (initial fk)
  show ?case by (simp add: constraints_def empty_database_def)
qed (simp_all add: create_user_constraints create_mailing_list_constraints
    create_subscriber_constraints create_template_constraints create_mailing_constraints
    update_user_unchanged update_mailing_list_unchanged update_template_unchanged
    update_mailing_unchanged delete_user_constraints delete_mailing_list_constraints
    delete_subscriber_constraints delete_template_constraints)

lemmas sample_defs = sample_database_def alice_def bob_def news_def offers_def carol_def
  dave_def hello_def sale_def mailing1_def mailing2_def mailing3_def

lemma constraints_sample_database: "constraints sample_database"
  by (simp add: constraints_def sample_defs)

section \<open>Ownership of mailing lists\<close>

text \<open>
  Claim C1. Let the mailing list \<open>l\<close> be owned by user \<open>A\<close>, and let \<open>B\<close> be a user with
  another id. Reading, updating and deleting \<open>l\<close> as \<open>B\<close> each raise 404
  ``Mailing list not found'', exactly as the same three requests do for an id \<open>i\<close> that
  no mailing list has; the database is the same after each request, and after \<open>B\<close>'s
  update the stored row is still \<open>l\<close>, with its name.

  The update route does call the data access object before it compares the owner. The
  row is untouched all the same, because \<^verbatim>\<open>MailingListDAO.update_mailing_list\<close> assigns
  the name to a detached object and commits a session that holds nothing.
\<close>

theorem mailing_list_hidden_from_other_user:
  assumes "constraints db"
    and "l \<in> set (mailing_lists db)"
    and "ml_user_id l = u_id A"
    and "u_id B \<noteq> u_id A"
    and "i \<notin> set (map ml_id (mailing_lists db))"
  shows "read_mailing_list db (ml_id l) B = Inl (HTTPException 404 ''Mailing list not found'')
       \<and> read_mailing_list db i B = Inl (HTTPException 404 ''Mailing list not found'')
       \<and> update_mailing_list_api db (ml_id l) name B
           = (db, Inl (HTTPException 404 ''Mailing list not found''))
       \<and> update_mailing_list_api db i name B
           = (db, Inl (HTTPException 404 ''Mailing list not found''))
       \<and> delete_mailing_list_api db (ml_id l) B
           = (db, Inl (HTTPException 404 ''Mailing list not found''))
       \<and> delete_mailing_list_api db i B
           = (db, Inl (HTTPException 404 ''Mailing list not found''))
       \<and> get_mailing_list_by_id (fst (update_mailing_list_api db (ml_id l) name B)) (ml_id l)
           = Inr (Some l)"
proof -
  have present: "get_mailing_list_by_id db (ml_id l) = Inr (Some l)"
    using assms(1,2) by (rule get_mailing_list_by_id_present)
  have absent: "get_mailing_list_by_id db i = Inr None"
    using assms(5) by (rule get_mailing_list_by_id_absent)
  have owner: "ml_user_id l \<noteq> u_id B"
    using assms(3,4) by simp
  have r1: "read_mailing_list db (ml_id l) B
              = Inl (HTTPException 404 ''Mailing list not found'')"
    by (simp add: read_mailing_list_def present owner)
  have r2: "read_mailing_list db i B = Inl (HTTPException 404 ''Mailing list not found'')"
    by (simp add: read_mailing_list_def absent)
  have u1: "update_mailing_list_api db (ml_id l) name B
              = (db, Inl (HTTPException 404 ''Mailing list not found''))"
    using owner
    by (simp add: update_mailing_list_api_def update_mailing_list_present [OF assms(1,2)])
  have u2: "update_mailing_list_api db i name B
              = (db, Inl (HTTPException 404 ''Mailing list not found''))"
    by (simp add: update_mailing_list_api_def update_mailing_list_absent [OF assms(5)])
  have d1: "delete_mailing_list_api db (ml_id l) B
              = (db, Inl (HTTPException 404 ''Mailing list not found''))"
    by (simp add: delete_mailing_list_api_def present owner)
  have d2: "delete_mailing_list_api db i B
              = (db, Inl (HTTPException 404 ''Mailing list not found''))"
    by (simp add: delete_mailing_list_api_def absent)
  from r1 r2 u1 u2 d1 d2 present show ?thesis by simp
qed

theorem mailing_list_hidden_from_other_user_witness:
  "constraints sample_database \<and> news \<in> set (mailing_lists sample_database)
   \<and> ml_user_id news = u_id alice \<and> u_id bob \<noteq> u_id alice
   \<and> 7 \<notin> set (map ml_id (mailing_lists sample_database))
   \<and> read_mailing_list sample_database 1 bob
        = Inl (HTTPException 404 ''Mailing list not found'')
   \<and> update_mailing_list_api sample_database 1 ''mine'' bob
        = (sample_database, Inl (HTTPException 404 ''Mailing list not found''))
   \<and> delete_mailing_list_api sample_database 1 bob
        = (sample_database, Inl (HTTPException 404 ''Mailing list not found''))
   \<and> get_mailing_list_by_id
        (fst (update_mailing_list_api sample_database 1 ''mine'' bob)) 1 = Inr (Some news)"
proof -
  have h1: "constraints sample_database"
    by (simp add: constraints_def sample_defs)
  have h2: "news \<in> set (mailing_lists sample_database)"
    by (simp add: sample_database_def)
  have h3: "ml_user_id news = u_id alice"
    by (simp add: news_def alice_def)
  have h4: "u_id bob \<noteq> u_id alice"
    by (simp add: bob_def alice_def)
  have h5: "7 \<notin> set (map ml_id (mailing_lists sample_database))"
    by (simp add: sample_defs)
  have k: "ml_id news = 1" by (simp add: news_def)
  note inst = mailing_list_hidden_from_other_user [OF h1 h2 h3 h4 h5, where name = "''mine''"]
  from inst h1 h2 h3 h4 h5 show ?thesis
    unfolding k by blast
qed

section \<open>Deleting a user\<close>

lemma cascade_user_members:
  "MailingListRow l \<in> set (cascade_user db u) \<longleftrightarrow>
     l \<in> set (mailing_lists db) \<and> ml_user_id l = u_id u"
  "TemplateRow t \<in> set (cascade_user db u) \<longleftrightarrow>
     t \<in> set (templates db) \<and> t_user_id t = u_id u"
  "m \<in> set (mailings db) \<Longrightarrow> m_user_id m = u_id u \<Longrightarrow> MailingRow m \<in> set (cascade_user db u)"
  "UserRow v \<in> set (cascade_user db u) \<longleftrightarrow> v = u"
  by (auto simp: cascade_user_def cascade_mailing_list_def cascade_template_def)

lemma delete_user_True:
  assumes "delete_user db user_id = (db', Inr True)"
  obtains u where "filter (\<lambda>u. u_id u = user_id) (users db) = [u]"
    and "flush delete_row (cascade_user db u) db = Inr db'"
  using assms
  by (auto simp: delete_user_def get_user_by_id_def commit_deleted scalar_one_or_none_Some
      split: sum.splits option.splits)

lemma delete_user_lookups:
  assumes "delete_user db user_id = (db', Inr True)"
  shows "get_user_by_id db' user_id = Inr None"
    and "get_mailing_lists_by_user_id db' user_id = []"
    and "get_templates_by_user_id db' user_id = []"
    and "get_mailings_by_user_id db' user_id = []"
    and "\<forall>l \<in> set (mailing_lists db). ml_user_id l = user_id \<longrightarrow>
           get_mailing_list_by_id db' (ml_id l) = Inr None"
    and "\<forall>t \<in> set (templates db). t_user_id t = user_id \<longrightarrow>
           get_template_by_id db' (t_id t) = Inr None"
    and "\<forall>m \<in> set (mailings db). m_user_id m = user_id \<longrightarrow>
           get_mailing_by_id db' (m_id m) = Inr None"
proof -
  from assms obtain u where u: "filter (\<lambda>u. u_id u = user_id) (users db) = [u]"
    and fl: "flush delete_row (cascade_user db u) db = Inr db'"
    by (rule delete_user_True)
  from u have "u \<in> set (filter (\<lambda>u. u_id u = user_id) (users db))" by simp
  then have uid: "u_id u = user_id" by simp
  note tabs = flush_delete_row_tables [OF fl]
  show "get_user_by_id db' user_id = Inr None"
    unfolding get_user_by_id_def
    by (rule get_by_id_absent) (use uid in \<open>auto simp: tabs(1) cascade_user_members\<close>)
  show "get_mailing_lists_by_user_id db' user_id = []"
    using uid by (auto simp: get_mailing_lists_by_user_id_def tabs(2) filter_empty_conv
        cascade_user_members)
  show "get_templates_by_user_id db' user_id = []"
    using uid by (auto simp: get_templates_by_user_id_def tabs(4) filter_empty_conv
        cascade_user_members)
  show "get_mailings_by_user_id db' user_id = []"
    using uid by (auto simp: get_mailings_by_user_id_def tabs(5) filter_empty_conv
        dest: cascade_user_members(3))
  have "\<forall>v \<in> set (mailing_lists db'). ml_id v \<noteq> ml_id l"
    if "l \<in> set (mailing_lists db)" "ml_user_id l = user_id" for l
    using that uid by (auto simp: tabs(2) cascade_user_members)
  then show "\<forall>l \<in> set (mailing_lists db). ml_user_id l = user_id \<longrightarrow>
           get_mailing_list_by_id db' (ml_id l) = Inr None"
    unfolding get_mailing_list_by_id_def by (blast intro: get_by_id_absent)
  have "\<forall>v \<in> set (templates db'). t_id v \<noteq> t_id t"
    if "t \<in> set (templates db)" "t_user_id t = user_id" for t
    using that uid by (auto simp: tabs(4) cascade_user_members)
  then show "\<forall>t \<in> set (templates db). t_user_id t = user_id \<longrightarrow>
           get_template_by_id db' (t_id t) = Inr None"
    unfolding get_template_by_id_def by (blast intro: get_by_id_absent)
  have "\<forall>v \<in> set (mailings db'). m_id v \<noteq> m_id m"
    if "m \<in> set (mailings db)" "m_user_id m = user_id" for m
    using that uid cascade_user_members(3) [of m db u] by (auto simp: tabs(5))
  then show "\<forall>m \<in> set (mailings db). m_user_id m = user_id \<longrightarrow>
           get_mailing_by_id db' (m_id m) = Inr None"
    unfolding get_mailing_by_id_def by (blast intro: get_by_id_absent)
qed

text \<open>
  Claim C8. When \<^verbatim>\<open>delete_user(U.id)\<close> has returned true, the lists of \<open>U\<close>'s mailing
  lists, templates and mailings are empty, and the lookup by id of every mailing list,
  template and mailing that \<open>U\<close> owned before returns \<^verbatim>\<open>None\<close>.
\<close>

theorem delete_user_cascades:
  assumes "delete_user db user_id = (db', Inr True)"
  shows "get_mailing_lists_by_user_id db' user_id = []
       \<and> get_templates_by_user_id db' user_id = []
       \<and> get_mailings_by_user_id db' user_id = []
       \<and> (\<forall>l \<in> set (mailing_lists db). ml_user_id l = user_id \<longrightarrow>
             get_mailing_list_by_id db' (ml_id l) = Inr None)
       \<and> (\<forall>t \<in> set (templates db). t_user_id t = user_id \<longrightarrow>
             get_template_by_id db' (t_id t) = Inr None)
       \<and> (\<forall>m \<in> set (mailings db). m_user_id m = user_id \<longrightarrow>
             get_mailing_by_id db' (m_id m) = Inr None)"
  using delete_user_lookups [OF assms] by blast

theorem delete_user_cascades_witness:
  "delete_user sample_database 1 =
     (\<lparr>users = [bob], mailing_lists = [offers], subscribers = [dave], templates = [sale],
       mailings = [mailing3], foreign_keys = True\<rparr>, Inr True)
   \<and> news \<in> set (mailing_lists sample_database) \<and> ml_user_id news = 1
   \<and> hello \<in> set (templates sample_database) \<and> t_user_id hello = 1
   \<and> mailing1 \<in> set (mailings sample_database) \<and> m_user_id mailing1 = 1
   \<and> get_mailing_lists_by_user_id (fst (delete_user sample_database 1)) 1 = []
   \<and> get_templates_by_user_id (fst (delete_user sample_database 1)) 1 = []
   \<and> get_mailings_by_user_id (fst (delete_user sample_database 1)) 1 = []
   \<and> get_mailing_list_by_id (fst (delete_user sample_database 1)) (ml_id news) = Inr None
   \<and> get_template_by_id (fst (delete_user sample_database 1)) (t_id hello) = Inr None
   \<and> get_mailing_by_id (fst (delete_user sample_database 1)) (m_id mailing1) = Inr None"
proof -
  have h: "delete_user sample_database 1 =
     (\<lparr>users = [bob], mailing_lists = [offers], subscribers = [dave], templates = [sale],
       mailings = [mailing3], foreign_keys = True\<rparr>, Inr True)"
    by (simp add: delete_user_def get_user_by_id_def commit_deleted cascade_user_def
        cascade_mailing_list_def cascade_template_def sample_defs)
  have n: "news \<in> set (mailing_lists sample_database)" "ml_user_id news = 1"
    "hello \<in> set (templates sample_database)" "t_user_id hello = 1"
    "mailing1 \<in> set (mailings sample_database)" "m_user_id mailing1 = 1"
    by (simp_all add: sample_database_def news_def hello_def mailing1_def)
  from delete_user_cascades [OF h] n h show ?thesis by simp
qed

section \<open>Deleting a mailing list or a template\<close>

lemma distinct_map_eq:
  "distinct (map f xs) \<Longrightarrow> x \<in> set xs \<Longrightarrow> y \<in> set xs \<Longrightarrow> f x = f y \<Longrightarrow> x = y"
  by (auto simp: distinct_map dest: inj_onD)

lemma cascade_mailing_list_mailings:
  "MailingRow m \<in> set (cascade_mailing_list db l) \<longleftrightarrow>
     m \<in> set (mailings db) \<and> m_mailing_list_id m = ml_id l"
  by (auto simp: cascade_mailing_list_def)

lemma cascade_template_mailings:
  "MailingRow m \<in> set (cascade_template db t) \<longleftrightarrow>
     m \<in> set (mailings db) \<and> m_template_id m = t_id t"
  by (auto simp: cascade_template_def)

lemma delete_mailing_list_True:
  assumes "delete_mailing_list db i = (db', Inr True)"
  obtains l where "ml_id l = i"
    and "flush delete_row (cascade_mailing_list db l) db = Inr db'"
proof -
  from assms obtain l where l: "filter (\<lambda>l. ml_id l = i) (mailing_lists db) = [l]"
    and fl: "flush delete_row (cascade_mailing_list db l) db = Inr db'"
    by (auto simp: delete_mailing_list_def get_mailing_list_by_id_def commit_deleted
        scalar_one_or_none_Some split: sum.splits option.splits)
  from l have "l \<in> set (filter (\<lambda>l. ml_id l = i) (mailing_lists db))" by simp
  then have "ml_id l = i" by simp
  with fl that show thesis by blast
qed

lemma delete_template_True:
  assumes "delete_template db i = (db', Inr True)"
  obtains t where "t_id t = i"
    and "flush delete_row (cascade_template db t) db = Inr db'"
proof -
  from assms obtain t where t: "filter (\<lambda>t. t_id t = i) (templates db) = [t]"
    and fl: "flush delete_row (cascade_template db t) db = Inr db'"
    by (auto simp: delete_template_def get_template_by_id_def commit_deleted
        scalar_one_or_none_Some split: sum.splits option.splits)
  from t have "t \<in> set (filter (\<lambda>t. t_id t = i) (templates db))" by simp
  then have "t_id t = i" by simp
  with fl that show thesis by blast
qed

lemma delete_mailing_list_mailings:
  assumes "constraints db" and "delete_mailing_list db i = (db', Inr True)"
  shows "mailings db' = filter (\<lambda>m. m_mailing_list_id m \<noteq> i) (mailings db)"
proof -
  from assms(2) obtain l where l: "ml_id l = i"
    and fl: "flush delete_row (cascade_mailing_list db l) db = Inr db'"
    by (rule delete_mailing_list_True)
  from assms(1) have d: "distinct (map m_id (mailings db))"
    by (simp add: constraints_def)
  have "(\<forall>m. MailingRow m \<in> set (cascade_mailing_list db l) \<longrightarrow> m_id m \<noteq> m_id v)
          \<longleftrightarrow> m_mailing_list_id v \<noteq> i" if "v \<in> set (mailings db)" for v
    using that l distinct_map_eq [OF d] by (auto simp: cascade_mailing_list_mailings)
  then show ?thesis
    unfolding flush_delete_row_tables(5) [OF fl] by (auto intro: filter_cong)
qed

lemma delete_template_mailings:
  assumes "constraints db" and "delete_template db i = (db', Inr True)"
  shows "mailings db' = filter (\<lambda>m. m_template_id m \<noteq> i) (mailings db)"
proof -
  from assms(2) obtain t where t: "t_id t = i"
    and fl: "flush delete_row (cascade_template db t) db = Inr db'"
    by (rule delete_template_True)
  from assms(1) have d: "distinct (map m_id (mailings db))"
    by (simp add: constraints_def)
  have "(\<forall>m. MailingRow m \<in> set (cascade_template db t) \<longrightarrow> m_id m \<noteq> m_id v)
          \<longleftrightarrow> m_template_id v \<noteq> i" if "v \<in> set (mailings db)" for v
    using that t distinct_map_eq [OF d] by (auto simp: cascade_template_mailings)
  then show ?thesis
    unfolding flush_delete_row_tables(5) [OF fl] by (auto intro: filter_cong)
qed

lemma delete_mailing_list_sample:
  "delete_mailing_list sample_database 1 =
     (sample_database\<lparr>mailing_lists := [offers], subscribers := [dave],
        mailings := [mailing3]\<rparr>, Inr True)"
  by (simp add: delete_mailing_list_def get_mailing_list_by_id_def commit_deleted
      cascade_mailing_list_def sample_defs)

lemma delete_template_sample:
  "delete_template sample_database 1 =
     (sample_database\<lparr>templates := [sale], mailings := [mailing2, mailing3]\<rparr>, Inr True)"
  by (simp add: delete_template_def get_template_by_id_def commit_deleted
      cascade_template_def sample_defs)

text \<open>
  Claim C3, as stated: a mailing survives the deletion of the mailing list or of the
  template it references. It does not. \<^verbatim>\<open>MailingList.mailings\<close> and
  \<^verbatim>\<open>Template.mailings\<close> are declared with \<^verbatim>\<open>cascade="all, delete-orphan"\<close>, so
  \<^verbatim>\<open>session.delete\<close> of the list or of the template deletes the mailings that
  reference it; the \<^verbatim>\<open>ondelete="NO ACTION"\<close> of the foreign keys never comes into
  play. In the sample database mailing 1 references list 1 and template 1, and is gone
  after either delete.
\<close>

theorem mailing_deleted_with_its_mailing_list:
  "mailing1 \<in> set (mailings sample_database)
   \<and> m_mailing_list_id mailing1 = 1 \<and> m_template_id mailing1 = 1
   \<and> snd (delete_mailing_list sample_database 1) = Inr True
   \<and> mailing1 \<notin> set (mailings (fst (delete_mailing_list sample_database 1)))
   \<and> snd (delete_template sample_database 1) = Inr True
   \<and> mailing1 \<notin> set (mailings (fst (delete_template sample_database 1)))"
  unfolding delete_mailing_list_sample delete_template_sample
  by (simp add: sample_defs)

text \<open>
  Claim C3, amended. When \<^verbatim>\<open>delete_mailing_list\<close> (or \<^verbatim>\<open>delete_template\<close>) has returned
  true, the mailings left are exactly the former mailings that did not reference the
  deleted mailing list (or template): every mailing that referenced it is deleted with
  it, every other mailing survives, and no mailing is left with a dangling reference to
  it.
\<close>

theorem delete_removes_referencing_mailings:
  assumes "constraints db"
  shows "(delete_mailing_list db i = (db', Inr True) \<longrightarrow>
            mailings db' = filter (\<lambda>m. m_mailing_list_id m \<noteq> i) (mailings db))
       \<and> (delete_template db j = (db'', Inr True) \<longrightarrow>
            mailings db'' = filter (\<lambda>m. m_template_id m \<noteq> j) (mailings db))"
  using delete_mailing_list_mailings [OF assms] delete_template_mailings [OF assms] by blast

theorem delete_removes_referencing_mailings_witness:
  "constraints sample_database
   \<and> delete_mailing_list sample_database 1 =
       (sample_database\<lparr>mailing_lists := [offers], subscribers := [dave],
          mailings := [mailing3]\<rparr>, Inr True)
   \<and> delete_template sample_database 1 =
       (sample_database\<lparr>templates := [sale], mailings := [mailing2, mailing3]\<rparr>, Inr True)
   \<and> mailings (fst (delete_mailing_list sample_database 1))
       = filter (\<lambda>m. m_mailing_list_id m \<noteq> 1) (mailings sample_database)
   \<and> mailings (fst (delete_template sample_database 1))
       = filter (\<lambda>m. m_template_id m \<noteq> 1) (mailings sample_database)"
proof -
  note c = constraints_sample_database
  note l = delete_mailing_list_sample
  note t = delete_template_sample
  note inst = delete_removes_referencing_mailings [OF c, of 1 "fst (delete_mailing_list sample_database 1)" 1
      "fst (delete_template sample_database 1)"]
  have a: "mailings (fst (delete_mailing_list sample_database 1))
       = filter (\<lambda>m. m_mailing_list_id m \<noteq> 1) (mailings sample_database)"
    using inst by (simp add: l)
  have b: "mailings (fst (delete_template sample_database 1))
       = filter (\<lambda>m. m_template_id m \<noteq> 1) (mailings sample_database)"
    using inst by (simp add: t)
  from c l t a b show ?thesis by blast
qed

section \<open>Partial updates\<close>

lemma update_user_present:
  assumes "constraints db" and "u \<in> set (users db)"
  shows "\<exists>u'. update_user db (u_id u) username hashed_password email is_admin
                 = (db, Inr (Some u'))
            \<and> u_id u' = u_id u \<and> u_is_active u' = u_is_active u
            \<and> u_username u' = (if truthy username then the username else u_username u)
            \<and> u_hashed_password u'
                = (if truthy hashed_password then the hashed_password
                   else u_hashed_password u)
            \<and> u_email u' = (if truthy email then the email else u_email u)
            \<and> u_is_admin u' = (case is_admin of None \<Rightarrow> u_is_admin u | Some a \<Rightarrow> a)"
  by (simp add: update_user_def get_user_by_id_present [OF assms] commit_empty_session
      split: option.splits)

lemma update_user_absent:
  "i \<notin> set (map u_id (users db)) \<Longrightarrow>
   update_user db i username hashed_password email is_admin = (db, Inr None)"
  by (simp add: update_user_def get_user_by_id_absent)

lemma update_template_present:
  assumes "constraints db" and "t \<in> set (templates db)"
  shows "\<exists>t'. update_template db (t_id t) name content = (db, Inr (Some t'))
            \<and> t_id t' = t_id t \<and> t_user_id t' = t_user_id t
            \<and> t_name t' = (if truthy name then the name else t_name t)
            \<and> t_content t' = (if truthy content then the content else t_content t)"
  by (simp add: update_template_def get_template_by_id_present [OF assms]
      commit_empty_session)

lemma update_template_absent:
  "i \<notin> set (map t_id (templates db)) \<Longrightarrow>
   update_template db i name content = (db, Inr None)"
  by (simp add: update_template_def get_template_by_id_absent)

text \<open>
  Claim C6, as stated: every partial update leaves a field whose supplied value is
  absent or falsy unchanged, and returns the entity whenever one with that id exists.
  Two parts fail. \<^verbatim>\<open>update_mailing_list\<close> tests \<^verbatim>\<open>if mailing_list and name\<close> and
  returns \<^verbatim>\<open>None\<close> for an existing list when the name is \<^verbatim>\<open>None\<close> or empty. And
  \<^verbatim>\<open>update_user\<close> tests \<^verbatim>\<open>is_admin is not None\<close>, so the falsy value \<^verbatim>\<open>False\<close> is
  applied: it takes the admin flag from Alice.
\<close>

theorem update_mailing_list_absent_for_existing_list:
  "get_mailing_list_by_id sample_database 1 = Inr (Some news)
   \<and> update_mailing_list sample_database 1 (Some '''') = (sample_database, Inr None)
   \<and> update_mailing_list sample_database 1 None = (sample_database, Inr None)
   \<and> get_user_by_id sample_database 1 = Inr (Some alice)
   \<and> u_is_admin alice
   \<and> snd (update_user sample_database 1 None None None (Some False))
       = Inr (Some (alice\<lparr>u_is_admin := False\<rparr>))"
  by (simp add: get_mailing_list_by_id_def update_mailing_list_def get_user_by_id_def
      update_user_def commit_empty_session sample_defs)

text \<open>
  Claim C6, amended. \<^verbatim>\<open>update_user\<close> and \<^verbatim>\<open>update_template\<close> return the entity whenever
  one with that id exists and \<^verbatim>\<open>None\<close> only when none exists; each string field whose
  supplied value is \<^verbatim>\<open>None\<close> or empty has its former value in the returned entity and
  in the stored row (an empty username does not clear the username); \<^verbatim>\<open>is_admin\<close> is
  left as it was when \<^verbatim>\<open>None\<close> is supplied and is set to the supplied value otherwise,
  \<^verbatim>\<open>False\<close> included. \<^verbatim>\<open>update_mailing_list\<close> returns the list with the new name when
  the list exists and the name is not empty, and \<^verbatim>\<open>None\<close> when no list has the id or
  the name is \<^verbatim>\<open>None\<close> or empty; in that case the stored name is as before.
\<close>

theorem partial_update_semantics:
  assumes "constraints db"
  shows "(\<forall>u \<in> set (users db).
            \<exists>db' u' u''.
              update_user db (u_id u) username hashed_password email is_admin
                = (db', Inr (Some u'))
              \<and> get_user_by_id db' (u_id u) = Inr (Some u'')
              \<and> (\<not> truthy username \<longrightarrow>
                    u_username u' = u_username u \<and> u_username u'' = u_username u)
              \<and> (\<not> truthy hashed_password \<longrightarrow>
                    u_hashed_password u' = u_hashed_password u
                    \<and> u_hashed_password u'' = u_hashed_password u)
              \<and> (\<not> truthy email \<longrightarrow> u_email u' = u_email u \<and> u_email u'' = u_email u)
              \<and> (is_admin = None \<longrightarrow>
                    u_is_admin u' = u_is_admin u \<and> u_is_admin u'' = u_is_admin u)
              \<and> (\<forall>a. is_admin = Some a \<longrightarrow> u_is_admin u' = a))
       \<and> (\<forall>i. i \<notin> set (map u_id (users db)) \<longrightarrow>
            snd (update_user db i username hashed_password email is_admin) = Inr None)
       \<and> (\<forall>t \<in> set (templates db).
            \<exists>db' t' t''.
              update_template db (t_id t) name content = (db', Inr (Some t'))
              \<and> get_template_by_id db' (t_id t) = Inr (Some t'')
              \<and> (\<not> truthy name \<longrightarrow> t_name t' = t_name t \<and> t_name t'' = t_name t)
              \<and> (\<not> truthy content \<longrightarrow>
                    t_content t' = t_content t \<and> t_content t'' = t_content t))
       \<and> (\<forall>i. i \<notin> set (map t_id (templates db)) \<longrightarrow>
            snd (update_template db i name content) = Inr None)
       \<and> (\<forall>l \<in> set (mailing_lists db).
            \<exists>db' l''.
              update_mailing_list db (ml_id l) list_name
                = (db', Inr (if truthy list_name then Some (l\<lparr>ml_name := the list_name\<rparr>)
                              else None))
              \<and> get_mailing_list_by_id db' (ml_id l) = Inr (Some l'')
              \<and> (\<not> truthy list_name \<longrightarrow> ml_name l'' = ml_name l))
       \<and> (\<forall>i. i \<notin> set (map ml_id (mailing_lists db)) \<longrightarrow>
            snd (update_mailing_list db i list_name) = Inr None)"
proof -
  have users: "\<exists>db' u' u''.
              update_user db (u_id u) username hashed_password email is_admin
                = (db', Inr (Some u'))
              \<and> get_user_by_id db' (u_id u) = Inr (Some u'')
              \<and> (\<not> truthy username \<longrightarrow>
                    u_username u' = u_username u \<and> u_username u'' = u_username u)
              \<and> (\<not> truthy hashed_password \<longrightarrow>
                    u_hashed_password u' = u_hashed_password u
                    \<and> u_hashed_password u'' = u_hashed_password u)
              \<and> (\<not> truthy email \<longrightarrow> u_email u' = u_email u \<and> u_email u'' = u_email u)
              \<and> (is_admin = None \<longrightarrow>
                    u_is_admin u' = u_is_admin u \<and> u_is_admin u'' = u_is_admin u)
              \<and> (\<forall>a. is_admin = Some a \<longrightarrow> u_is_admin u' = a)"
    if "u \<in> set (users db)" for u
  proof -
    from update_user_present [OF assms that, of username hashed_password email is_admin]
    obtain u' where "update_user db (u_id u) username hashed_password email is_admin
                 = (db, Inr (Some u'))"
      and "u_username u' = (if truthy username then the username else u_username u)"
      and "u_hashed_password u'
                = (if truthy hashed_password then the hashed_password
                   else u_hashed_password u)"
      and "u_email u' = (if truthy email then the email else u_email u)"
      and "u_is_admin u' = (case is_admin of None \<Rightarrow> u_is_admin u | Some a \<Rightarrow> a)"
      by blast
    with get_user_by_id_present [OF assms that] show ?thesis by auto
  qed
  have templates: "\<exists>db' t' t''.
              update_template db (t_id t) name content = (db', Inr (Some t'))
              \<and> get_template_by_id db' (t_id t) = Inr (Some t'')
              \<and> (\<not> truthy name \<longrightarrow> t_name t' = t_name t \<and> t_name t'' = t_name t)
              \<and> (\<not> truthy content \<longrightarrow>
                    t_content t' = t_content t \<and> t_content t'' = t_content t)"
    if "t \<in> set (templates db)" for t
  proof -
    from update_template_present [OF assms that, of name content]
    obtain t' where "update_template db (t_id t) name content = (db, Inr (Some t'))"
      and "t_name t' = (if truthy name then the name else t_name t)"
      and "t_content t' = (if truthy content then the content else t_content t)"
      by blast
    with get_template_by_id_present [OF assms that] show ?thesis by auto
  qed
  have lists: "\<exists>db' l''.
              update_mailing_list db (ml_id l) list_name
                = (db', Inr (if truthy list_name then Some (l\<lparr>ml_name := the list_name\<rparr>)
                              else None))
              \<and> get_mailing_list_by_id db' (ml_id l) = Inr (Some l'')
              \<and> (\<not> truthy list_name \<longrightarrow> ml_name l'' = ml_name l)"
    if "l \<in> set (mailing_lists db)" for l
    using update_mailing_list_present [OF assms that, of list_name]
      get_mailing_list_by_id_present [OF assms that] by auto
  show ?thesis
    using users templates lists
    by (simp add: update_user_absent update_template_absent update_mailing_list_absent)
qed

theorem partial_update_semantics_witness:
  "constraints sample_database
   \<and> alice \<in> set (users sample_database) \<and> 7 \<notin> set (map u_id (users sample_database))
   \<and> hello \<in> set (templates sample_database)
   \<and> 7 \<notin> set (map t_id (templates sample_database))
   \<and> news \<in> set (mailing_lists sample_database)
   \<and> 7 \<notin> set (map ml_id (mailing_lists sample_database))
   \<and> (\<exists>db' u' u''.
         update_user sample_database (u_id alice) (Some '''') None (Some ''a@example.org'') None
           = (db', Inr (Some u'))
         \<and> get_user_by_id db' (u_id alice) = Inr (Some u'')
         \<and> u_username u' = u_username alice \<and> u_username u'' = u_username alice
         \<and> u_hashed_password u' = u_hashed_password alice
         \<and> u_hashed_password u'' = u_hashed_password alice
         \<and> u_is_admin u' = u_is_admin alice \<and> u_is_admin u'' = u_is_admin alice)
   \<and> snd (update_user sample_database 7 (Some '''') None (Some ''a@example.org'') None)
       = Inr None
   \<and> (\<exists>db' t' t''.
         update_template sample_database (t_id hello) (Some ''hi'') (Some '''')
           = (db', Inr (Some t'))
         \<and> get_template_by_id db' (t_id hello) = Inr (Some t'')
         \<and> t_content t' = t_content hello \<and> t_content t'' = t_content hello)
   \<and> snd (update_template sample_database 7 (Some ''hi'') (Some '''')) = Inr None
   \<and> (\<exists>db' l''.
         update_mailing_list sample_database (ml_id news) (Some '''') = (db', Inr None)
         \<and> get_mailing_list_by_id db' (ml_id news) = Inr (Some l'')
         \<and> ml_name l'' = ml_name news)
   \<and> snd (update_mailing_list sample_database 7 (Some '''')) = Inr None"
proof -
  have c: "constraints sample_database"
    by (simp add: constraints_def sample_defs)
  have m: "alice \<in> set (users sample_database)" "7 \<notin> set (map u_id (users sample_database))"
    "hello \<in> set (templates sample_database)"
    "7 \<notin> set (map t_id (templates sample_database))"
    "news \<in> set (mailing_lists sample_database)"
    "7 \<notin> set (map ml_id (mailing_lists sample_database))"
    by (simp_all add: sample_defs)
  have f: "\<not> truthy (Some '''')" "\<not> truthy None" "truthy (Some ''hi'')"
    "truthy (Some ''a@example.org'')"
    by simp_all
  note inst = partial_update_semantics [OF c, of "Some ''''" None "Some ''a@example.org''" None
      "Some ''hi''" "Some ''''" "Some ''''"]
  show ?thesis
    using inst c m f by simp
qed

section \<open>Not found and forbidden\<close>

lemma foreign_template_status:
  assumes "constraints db" and "t \<in> set (templates db)" and "t_user_id t \<noteq> u_id B"
  shows "snd (delete_template_api db (t_id t) B)
           = Inl (HTTPException 403 ''You are not allowed to delete this template'')"
    and "status_code 200 (read_template db (t_id t) B) = 404"
    and "status_code 200 (snd (update_template_api db (t_id t) body B)) = 404"
proof -
  note present = get_template_by_id_present [OF assms(1,2)]
  show "snd (delete_template_api db (t_id t) B)
           = Inl (HTTPException 403 ''You are not allowed to delete this template'')"
    using assms(3) by (simp add: delete_template_api_def present)
  show "status_code 200 (read_template db (t_id t) B) = 404"
    using assms(3) by (simp add: read_template_def present)
  from update_template_present [OF assms(1,2), of "Some (tc_name body)" "Some (tc_content body)"]
  obtain t' where "update_template db (t_id t) (Some (tc_name body)) (Some (tc_content body))
      = (db, Inr (Some t'))" and "t_user_id t' = t_user_id t"
    by blast
  with assms(3) show "status_code 200 (snd (update_template_api db (t_id t) body B)) = 404"
    by (simp add: update_template_api_def)
qed

lemma absent_template_status:
  assumes "i \<notin> set (map t_id (templates db))"
  shows "status_code 204 (snd (delete_template_api db i B)) = 404"
    and "status_code 200 (read_template db i B) = 404"
    and "status_code 200 (snd (update_template_api db i body B)) = 404"
  using assms
  by (simp_all add: delete_template_api_def read_template_def update_template_api_def
      get_template_by_id_absent update_template_absent)

lemma foreign_mailing_list_status:
  assumes "constraints db" and "l \<in> set (mailing_lists db)" and "ml_user_id l \<noteq> u_id B"
  shows "status_code 200 (read_mailing_list db (ml_id l) B) = 404"
    and "status_code 200 (snd (update_mailing_list_api db (ml_id l) name B)) = 404"
    and "status_code 204 (snd (delete_mailing_list_api db (ml_id l) B)) = 404"
    and "sc_mailing_list_id sub = ml_id l \<Longrightarrow>
         status_code 201 (snd (create_new_subscriber db sub B)) = 404"
    and "status_code 200 (read_all_subscribers db (ml_id l) B) = 404"
  using assms(3)
  by (simp_all add: read_mailing_list_def update_mailing_list_api_def
      delete_mailing_list_api_def create_new_subscriber_def read_all_subscribers_def
      get_mailing_list_by_id_present [OF assms(1,2)]
      update_mailing_list_present [OF assms(1,2)])

lemma absent_mailing_list_status:
  assumes "j \<notin> set (map ml_id (mailing_lists db))"
  shows "status_code 200 (read_mailing_list db j B) = 404"
    and "status_code 200 (snd (update_mailing_list_api db j name B)) = 404"
    and "status_code 204 (snd (delete_mailing_list_api db j B)) = 404"
    and "sc_mailing_list_id sub = j \<Longrightarrow>
         status_code 201 (snd (create_new_subscriber db sub B)) = 404"
    and "status_code 200 (read_all_subscribers db j B) = 404"
  using assms
  by (simp_all add: read_mailing_list_def update_mailing_list_api_def
      delete_mailing_list_api_def create_new_subscriber_def read_all_subscribers_def
      get_mailing_list_by_id_absent update_mailing_list_absent)

lemma foreign_subscriber_status:
  assumes "constraints db" and "l \<in> set (mailing_lists db)" and "ml_user_id l \<noteq> u_id B"
    and "s \<in> set (subscribers db)" and "s_mailing_list_id s = ml_id l"
  shows "status_code 204 (snd (delete_subscriber_api db (s_id s) B)) = 404"
  using assms(3,5)
  by (simp add: delete_subscriber_api_def get_subscriber_by_id_present [OF assms(1,4)]
      get_mailing_list_by_id_present [OF assms(1,2)])

lemma absent_subscriber_status:
  assumes "k \<notin> set (map s_id (subscribers db))"
  shows "status_code 204 (snd (delete_subscriber_api db k B)) = 404"
  using assms by (simp add: delete_subscriber_api_def get_subscriber_by_id_absent)

text \<open>
  Claim C4. Let the template \<open>t\<close> and the mailing list \<open>l\<close> be owned by user \<open>A\<close>, and let
  \<open>B\<close> be a user with another id. Deleting \<open>t\<close> as \<open>B\<close> answers 403 and deleting \<open>l\<close> as
  \<open>B\<close> answers 404. Every other owner-scoped route answers \<open>B\<close> with the same status,
  404, for an entity of \<open>A\<close> and for an id that no entity has (\<open>i\<close>, \<open>j\<close>, \<open>k\<close>): reading,
  updating and deleting a mailing list, adding a subscriber to it, listing its
  subscribers, deleting a subscriber of it, reading and updating a template. Deleting
  a template is the one route whose status differs, 403 against 404.

  The comparison is on the status code. (For \<^verbatim>\<open>delete_subscriber\<close> the detail of the 404
  is ``Mailing list not found'' for a subscriber of \<open>A\<close>'s list and ``Subscriber not
  found'' for an unknown id.)
\<close>

theorem template_delete_forbidden_others_not_found:
  assumes "constraints db"
    and "u_id B \<noteq> u_id A"
    and "t \<in> set (templates db)" and "t_user_id t = u_id A"
    and "l \<in> set (mailing_lists db)" and "ml_user_id l = u_id A"
    and "s \<in> set (subscribers db)" and "s_mailing_list_id s = ml_id l"
    and "i \<notin> set (map t_id (templates db))"
    and "j \<notin> set (map ml_id (mailing_lists db))"
    and "k \<notin> set (map s_id (subscribers db))"
  shows "status_code 204 (snd (delete_template_api db (t_id t) B)) = 403
       \<and> status_code 204 (snd (delete_template_api db i B)) = 404
       \<and> status_code 204 (snd (delete_mailing_list_api db (ml_id l) B)) = 404
       \<and> status_code 204 (snd (delete_mailing_list_api db j B)) = 404
       \<and> status_code 200 (read_mailing_list db (ml_id l) B) = 404
       \<and> status_code 200 (read_mailing_list db j B) = 404
       \<and> status_code 200 (snd (update_mailing_list_api db (ml_id l) name B)) = 404
       \<and> status_code 200 (snd (update_mailing_list_api db j name B)) = 404
       \<and> status_code 201
            (snd (create_new_subscriber db \<lparr>sc_email = e, sc_mailing_list_id = ml_id l\<rparr> B))
           = 404
       \<and> status_code 201
            (snd (create_new_subscriber db \<lparr>sc_email = e, sc_mailing_list_id = j\<rparr> B)) = 404
       \<and> status_code 200 (read_all_subscribers db (ml_id l) B) = 404
       \<and> status_code 200 (read_all_subscribers db j B) = 404
       \<and> status_code 204 (snd (delete_subscriber_api db (s_id s) B)) = 404
       \<and> status_code 204 (snd (delete_subscriber_api db k B)) = 404
       \<and> status_code 200 (read_template db (t_id t) B) = 404
       \<and> status_code 200 (read_template db i B) = 404
       \<and> status_code 200 (snd (update_template_api db (t_id t) body B)) = 404
       \<and> status_code 200 (snd (update_template_api db i body B)) = 404"
proof -
  from assms(2,4) have t: "t_user_id t \<noteq> u_id B" by simp
  from assms(2,6) have l: "ml_user_id l \<noteq> u_id B" by simp
  note ft = foreign_template_status [OF assms(1,3) t]
  note at = absent_template_status [OF assms(9)]
  note fl = foreign_mailing_list_status [OF assms(1,5) l]
  note al = absent_mailing_list_status [OF assms(10)]
  note fs = foreign_subscriber_status [OF assms(1,5) l assms(7,8)]
  note as = absent_subscriber_status [OF assms(11)]
  show ?thesis
    by (simp add: ft at fl al fs as)
qed

theorem template_delete_forbidden_others_not_found_witness:
  "constraints sample_database \<and> u_id bob \<noteq> u_id alice
   \<and> hello \<in> set (templates sample_database) \<and> t_user_id hello = u_id alice
   \<and> news \<in> set (mailing_lists sample_database) \<and> ml_user_id news = u_id alice
   \<and> carol \<in> set (subscribers sample_database) \<and> s_mailing_list_id carol = ml_id news
   \<and> 7 \<notin> set (map t_id (templates sample_database))
   \<and> 7 \<notin> set (map ml_id (mailing_lists sample_database))
   \<and> 7 \<notin> set (map s_id (subscribers sample_database))
   \<and> status_code 204 (snd (delete_template_api sample_database (t_id hello) bob)) = 403
   \<and> status_code 204 (snd (delete_template_api sample_database 7 bob)) = 404
   \<and> status_code 204 (snd (delete_mailing_list_api sample_database (ml_id news) bob)) = 404
   \<and> status_code 204 (snd (delete_mailing_list_api sample_database 7 bob)) = 404
   \<and> status_code 204 (snd (delete_subscriber_api sample_database (s_id carol) bob)) = 404
   \<and> status_code 204 (snd (delete_subscriber_api sample_database 7 bob)) = 404"
proof -
  have h: "constraints sample_database" "u_id bob \<noteq> u_id alice"
    "hello \<in> set (templates sample_database)" "t_user_id hello = u_id alice"
    "news \<in> set (mailing_lists sample_database)" "ml_user_id news = u_id alice"
    "carol \<in> set (subscribers sample_database)" "s_mailing_list_id carol = ml_id news"
    "7 \<notin> set (map t_id (templates sample_database))"
    "7 \<notin> set (map ml_id (mailing_lists sample_database))"
    "7 \<notin> set (map s_id (subscribers sample_database))"
    by (simp_all add: constraints_def sample_defs)
  from template_delete_forbidden_others_not_found [OF h] h show ?thesis by blast
qed

section \<open>Subscriber emails\<close>

lemma create_subscriber_duplicate:
  "email \<in> set (map s_email (subscribers db)) \<Longrightarrow>
   create_subscriber db email mailing_list_id = (db, Inl IntegrityError)"
  by (simp add: create_subscriber_def commit_new)

text \<open>
  Claim C7. In every state reachable through the persistence operations no two
  subscriber rows have the same email, and creating a subscriber with an email that
  some subscriber already has fails with \<^verbatim>\<open>IntegrityError\<close>, whatever mailing list the
  new subscriber is for, and leaves the database as it was.
\<close>

theorem subscriber_email_globally_unique:
  assumes "reachable db"
  shows "distinct (map s_email (subscribers db))
       \<and> (\<forall>s \<in> set (subscribers db). \<forall>mailing_list_id.
             create_subscriber db (s_email s) mailing_list_id = (db, Inl IntegrityError))"
proof -
  from assms have "constraints db" by (rule reachable_constraints)
  then have "distinct (map s_email (subscribers db))" by (simp add: constraints_def)
  then show ?thesis by (simp add: create_subscriber_duplicate)
qed

theorem subscriber_email_globally_unique_witness:
  "reachable (fst (create_subscriber (fst (create_mailing_list (fst (create_mailing_list
       (fst (create_user (empty_database True) ''alice'' ''$2b$a'' ''alice@example.org'' True))
       ''news'' 1)) ''offers'' 1)) ''carol@example.org'' 1))
   \<and> subscribers (fst (create_subscriber (fst (create_mailing_list (fst (create_mailing_list
       (fst (create_user (empty_database True) ''alice'' ''$2b$a'' ''alice@example.org'' True))
       ''news'' 1)) ''offers'' 1)) ''carol@example.org'' 1)) = [carol]
   \<and> snd (create_subscriber (fst (create_subscriber (fst (create_mailing_list
       (fst (create_mailing_list
       (fst (create_user (empty_database True) ''alice'' ''$2b$a'' ''alice@example.org'' True))
       ''news'' 1)) ''offers'' 1)) ''carol@example.org'' 1)) ''carol@example.org'' 2)
       = Inl IntegrityError"
proof -
  let ?db = "fst (create_subscriber (fst (create_mailing_list (fst (create_mailing_list
       (fst (create_user (empty_database True) ''alice'' ''$2b$a'' ''alice@example.org'' True))
       ''news'' 1)) ''offers'' 1)) ''carol@example.org'' 1)"
  have r: "reachable ?db"
    by (intro reachable.step_create_subscriber reachable.step_create_mailing_list
        reachable.step_create_user reachable.initial)
  have s: "subscribers ?db = [carol]"
    by (simp add: create_subscriber_def create_mailing_list_def create_user_def commit_new
        empty_database_def next_id_def carol_def Let_def)
  then have "carol \<in> set (subscribers ?db)" by simp
  with subscriber_email_globally_unique [OF r] have "create_subscriber ?db (s_email carol) 2 = (?db, Inl IntegrityError)"
    by blast
  then have "snd (create_subscriber ?db ''carol@example.org'' 2) = Inl IntegrityError"
    by (simp add: carol_def)
  with r s show ?thesis by blast
qed

section \<open>Authentication failures\<close>

lemma delete_user_sample_bob:
  "delete_user sample_database 2 =
     (\<lparr>users = [alice], mailing_lists = [news], subscribers = [carol], templates = [hello],
       mailings = [mailing1], foreign_keys = True\<rparr>, Inr True)"
  by (simp add: delete_user_def get_user_by_id_def commit_deleted cascade_user_def
      cascade_mailing_list_def cascade_template_def sample_defs)

text \<open>
  Claim C2, as stated: every failure of the authentication chain yields one identical
  outcome, so that the caller cannot tell which step failed. The status is the same,
  the outcome is not: \<^verbatim>\<open>get_current_user\<close> raises with the detail ``Invalid token''
  when the token does not verify or has no \<^verbatim>\<open>user_id\<close>, and with the detail
  ``Invalid user'' when no user has the id. After Bob is deleted, the token issued for
  him is answered ``Invalid user'', and the same token with a wrong signature is
  answered ``Invalid token''.
\<close>

theorem auth_failure_details_differ:
  "create_access_token sample_environment [(''user_id'', u_id bob)] default_expires_delta
     = Inr (JWS ''HS256'' [(''user_id'', 2), (''exp'', 2800)] 13)
   \<and> get_current_user sample_environment (fst (delete_user sample_database 2))
        (JWS ''HS256'' [(''user_id'', 2), (''exp'', 2800)] 13)
      = Inl (HTTPException 401 ''Invalid user'')
   \<and> get_current_user sample_environment (fst (delete_user sample_database 2))
        (JWS ''HS256'' [(''user_id'', 2), (''exp'', 2800)] 12)
      = Inl (HTTPException 401 ''Invalid token'')
   \<and> get_current_user sample_environment (fst (delete_user sample_database 2))
        (JWS ''HS256'' [(''user_id'', 2), (''exp'', 2800)] 13)
      \<noteq> get_current_user sample_environment (fst (delete_user sample_database 2))
          (JWS ''HS256'' [(''user_id'', 2), (''exp'', 2800)] 12)"
  unfolding delete_user_sample_bob
  by (simp add: create_access_token_def jwt_encode_def default_expires_delta_def
      ACCESS_TOKEN_EXPIRE_MINUTES_def ALGORITHM_def sample_environment_def sample_hmac_def
      get_current_user_def verify_token_def get_user_by_id_def bob_def alice_def)

text \<open>
  What each step of the chain does with its cause of failure, and, the other way
  round, what a failure can be.
\<close>

lemma verify_token_malformed: "verify_token env Malformed = None"
  by (simp add: verify_token_def)

lemma verify_token_no_key:
  "SECRET_KEY env = None \<Longrightarrow> verify_token env token = None"
  by (cases token) (simp_all add: verify_token_def)

lemma verify_token_tampered:
  assumes "\<forall>k. SECRET_KEY env = Some k \<longrightarrow> signature \<noteq> hmac env k alg payload"
  shows "verify_token env (JWS alg payload signature) = None"
proof (cases "SECRET_KEY env")
  case None
  then show ?thesis by (rule verify_token_no_key)
next
  case (Some k)
  with assms have "signature \<noteq> hmac env k alg payload" by simp
  with Some show ?thesis by (auto simp: verify_token_def)
qed

lemma verify_token_expired:
  assumes "map_of payload ''exp'' = Some e" and "e < utcnow env"
  shows "verify_token env (JWS alg payload signature) = None"
proof (cases "SECRET_KEY env")
  case None
  then show ?thesis by (rule verify_token_no_key)
next
  case (Some k)
  with assms show ?thesis by (simp add: verify_token_def)
qed

lemma authenticate_no_token:
  "authenticate env db None = Inl (HTTPException 401 ''Not authenticated'')"
  by (simp add: authenticate_def oauth2_scheme_def)

lemma authenticate_unverified:
  "verify_token env token = None \<Longrightarrow>
   authenticate env db (Some token) = Inl (HTTPException 401 ''Invalid token'')"
  by (simp add: authenticate_def oauth2_scheme_def get_current_user_def)

lemma authenticate_no_user_id:
  "verify_token env token = Some payload \<Longrightarrow> map_of payload ''user_id'' = None \<Longrightarrow>
   authenticate env db (Some token) = Inl (HTTPException 401 ''Invalid token'')"
  by (simp add: authenticate_def oauth2_scheme_def get_current_user_def)

lemma authenticate_no_user:
  "verify_token env token = Some payload \<Longrightarrow> map_of payload ''user_id'' = Some user_id \<Longrightarrow>
   user_id \<notin> set (map u_id (users db)) \<Longrightarrow>
   authenticate env db (Some token) = Inl (HTTPException 401 ''Invalid user'')"
  by (simp add: authenticate_def oauth2_scheme_def get_current_user_def
      get_user_by_id_absent)

lemma authenticate_user:
  "constraints db \<Longrightarrow> verify_token env token = Some payload \<Longrightarrow>
   map_of payload ''user_id'' = Some (u_id u) \<Longrightarrow> u \<in> set (users db) \<Longrightarrow>
   authenticate env db (Some token) = Inr u"
  by (simp add: authenticate_def oauth2_scheme_def get_current_user_def
      get_user_by_id_present)

lemma auth_failure_classified:
  assumes "constraints db" and "authenticate env db authorization = Inl e"
  shows "status_code 200 (authenticate env db authorization) = 401
       \<and> (e = HTTPException 401 ''Not authenticated'' \<and> authorization = None
          \<or> e = HTTPException 401 ''Invalid token''
            \<and> (\<exists>token. authorization = Some token
                  \<and> (verify_token env token = None
                     \<or> (\<exists>payload. verify_token env token = Some payload
                           \<and> map_of payload ''user_id'' = None)))
          \<or> e = HTTPException 401 ''Invalid user''
            \<and> (\<exists>token payload user_id. authorization = Some token
                  \<and> verify_token env token = Some payload
                  \<and> map_of payload ''user_id'' = Some user_id
                  \<and> user_id \<notin> set (map u_id (users db))))"
proof (cases authorization)
  case None
  with assms(2) show ?thesis
    by (auto simp: authenticate_def oauth2_scheme_def)
next
  case (Some token)
  show ?thesis
  proof (cases "verify_token env token")
    case None
    with Some assms(2) show ?thesis
      by (auto simp: authenticate_def oauth2_scheme_def get_current_user_def)
  next
    case payload: (Some payload)
    show ?thesis
    proof (cases "map_of payload ''user_id''")
      case None
      with Some payload assms(2) show ?thesis
        by (auto simp: authenticate_def oauth2_scheme_def get_current_user_def)
    next
      case uid: (Some user_id)
      show ?thesis
      proof (cases "user_id \<in> set (map u_id (users db))")
        case True
        then obtain u where "u \<in> set (users db)" and "u_id u = user_id" by auto
        with assms(1) have "get_user_by_id db user_id = Inr (Some u)"
          using get_user_by_id_present by blast
        with Some payload uid assms(2) show ?thesis
          by (simp add: authenticate_def oauth2_scheme_def get_current_user_def)
      next
        case False
        then have "get_user_by_id db user_id = Inr None"
          by (rule get_user_by_id_absent)
        with Some payload uid assms(2) False show ?thesis
          by (auto simp: authenticate_def oauth2_scheme_def get_current_user_def)
      qed
    qed
  qed
qed

text \<open>
  Claim C2, amended. Each cause of failure yields an \<^verbatim>\<open>HTTPException\<close> with status 401,
  and the detail depends on the step: a request without a token is answered
  ``Not authenticated''; a token that does not verify (malformed, a signature that is
  not the keyed hash, expired, or any other reason for \<^verbatim>\<open>verify_token\<close> to return
  \<^verbatim>\<open>None\<close>) and a verified token whose payload has no \<^verbatim>\<open>user_id\<close> are answered
  ``Invalid token''; a verified token whose \<^verbatim>\<open>user_id\<close> is the id of no user is
  answered ``Invalid user''. A verified token with the id of a user is answered with
  that user. Conversely every failure has status 401 and one of these three details.
\<close>

theorem auth_failure_status_and_detail:
  assumes "constraints db"
  shows "authenticate env db None = Inl (HTTPException 401 ''Not authenticated'')
       \<and> authenticate env db (Some Malformed) = Inl (HTTPException 401 ''Invalid token'')
       \<and> ((\<forall>k. SECRET_KEY env = Some k \<longrightarrow> signature \<noteq> hmac env k alg payload) \<longrightarrow>
            authenticate env db (Some (JWS alg payload signature))
              = Inl (HTTPException 401 ''Invalid token''))
       \<and> (map_of payload ''exp'' = Some e \<and> e < utcnow env \<longrightarrow>
            authenticate env db (Some (JWS alg payload signature))
              = Inl (HTTPException 401 ''Invalid token''))
       \<and> (verify_token env token = None \<longrightarrow>
            authenticate env db (Some token) = Inl (HTTPException 401 ''Invalid token''))
       \<and> (verify_token env token = Some claims \<and> map_of claims ''user_id'' = None \<longrightarrow>
            authenticate env db (Some token) = Inl (HTTPException 401 ''Invalid token''))
       \<and> (verify_token env token = Some claims \<and> map_of claims ''user_id'' = Some user_id
            \<and> user_id \<notin> set (map u_id (users db)) \<longrightarrow>
            authenticate env db (Some token) = Inl (HTTPException 401 ''Invalid user''))
       \<and> (verify_token env token = Some claims \<and> map_of claims ''user_id'' = Some (u_id u)
            \<and> u \<in> set (users db) \<longrightarrow>
            authenticate env db (Some token) = Inr u)
       \<and> (\<forall>x. authenticate env db authorization = Inl x \<longrightarrow>
            status_code 200 (authenticate env db authorization) = 401
            \<and> (x = HTTPException 401 ''Not authenticated''
               \<or> x = HTTPException 401 ''Invalid token''
               \<or> x = HTTPException 401 ''Invalid user''))"
proof -
  have tampered: "authenticate env db (Some (JWS alg payload signature))
              = Inl (HTTPException 401 ''Invalid token'')"
    if "\<forall>k. SECRET_KEY env = Some k \<longrightarrow> signature \<noteq> hmac env k alg payload"
    using that by (intro authenticate_unverified verify_token_tampered)
  have expired: "authenticate env db (Some (JWS alg payload signature))
              = Inl (HTTPException 401 ''Invalid token'')"
    if "map_of payload ''exp'' = Some e" "e < utcnow env"
    using that by (intro authenticate_unverified verify_token_expired)
  have malformed: "authenticate env db (Some Malformed)
              = Inl (HTTPException 401 ''Invalid token'')"
    by (intro authenticate_unverified verify_token_malformed)
  have classified: "status_code 200 (authenticate env db authorization) = 401
            \<and> (x = HTTPException 401 ''Not authenticated''
               \<or> x = HTTPException 401 ''Invalid token''
               \<or> x = HTTPException 401 ''Invalid user'')"
    if "authenticate env db authorization = Inl x" for x
    using auth_failure_classified [OF assms that] by auto
  show ?thesis
    using authenticate_no_token [of env db] malformed tampered expired
      authenticate_unverified [of env token db]
      authenticate_no_user_id [of env token claims db]
      authenticate_no_user [of env token claims user_id db]
      authenticate_user [OF assms, of env token claims u]
      classified
    by blast
qed

theorem auth_failure_status_and_detail_witness:
  "constraints (fst (delete_user sample_database 2))
   \<and> authenticate sample_environment (fst (delete_user sample_database 2)) None
       = Inl (HTTPException 401 ''Not authenticated'')
   \<and> authenticate sample_environment (fst (delete_user sample_database 2)) (Some Malformed)
       = Inl (HTTPException 401 ''Invalid token'')
   \<and> SECRET_KEY sample_environment = Some ''secret''
   \<and> 12 \<noteq> hmac sample_environment ''secret'' ''HS256'' [(''user_id'', 2), (''exp'', 2800)]
   \<and> authenticate sample_environment (fst (delete_user sample_database 2))
        (Some (JWS ''HS256'' [(''user_id'', 2), (''exp'', 2800)] 12))
       = Inl (HTTPException 401 ''Invalid token'')
   \<and> map_of [(''user_id'', 1), (''exp'', 900::int)] ''exp'' = Some 900
   \<and> 900 < utcnow sample_environment
   \<and> authenticate sample_environment (fst (delete_user sample_database 2))
        (Some (JWS ''HS256'' [(''user_id'', 1), (''exp'', 900)] 13))
       = Inl (HTTPException 401 ''Invalid token'')
   \<and> verify_token sample_environment (JWS ''HS256'' [(''exp'', 2800)] 12)
       = Some [(''exp'', 2800)]
   \<and> map_of [(''exp'', 2800::int)] ''user_id'' = None
   \<and> authenticate sample_environment (fst (delete_user sample_database 2))
        (Some (JWS ''HS256'' [(''exp'', 2800)] 12))
       = Inl (HTTPException 401 ''Invalid token'')
   \<and> verify_token sample_environment (JWS ''HS256'' [(''user_id'', 2), (''exp'', 2800)] 13)
       = Some [(''user_id'', 2), (''exp'', 2800)]
   \<and> 2 \<notin> set (map u_id (users (fst (delete_user sample_database 2))))
   \<and> authenticate sample_environment (fst (delete_user sample_database 2))
        (Some (JWS ''HS256'' [(''user_id'', 2), (''exp'', 2800)] 13))
       = Inl (HTTPException 401 ''Invalid user'')
   \<and> verify_token sample_environment (JWS ''HS256'' [(''user_id'', 1), (''exp'', 2800)] 13)
       = Some [(''user_id'', 1), (''exp'', 2800)]
   \<and> alice \<in> set (users (fst (delete_user sample_database 2)))
   \<and> authenticate sample_environment (fst (delete_user sample_database 2))
        (Some (JWS ''HS256'' [(''user_id'', 1), (''exp'', 2800)] 13))
       = Inr alice
   \<and> status_code 200
        (authenticate sample_environment (fst (delete_user sample_database 2)) None) = 401"
proof -
  let ?db = "fst (delete_user sample_database 2)"
  let ?env = "sample_environment"
  have c: "constraints ?db"
    unfolding delete_user_sample_bob by (simp add: constraints_def sample_defs)
  have users: "2 \<notin> set (map u_id (users ?db))" "alice \<in> set (users ?db)"
    unfolding delete_user_sample_bob by (simp_all add: alice_def)
  have tampered: "\<forall>k. SECRET_KEY ?env = Some k \<longrightarrow>
          12 \<noteq> hmac ?env k ''HS256'' [(''user_id'', 2), (''exp'', 2800)]"
    by (simp add: sample_environment_def sample_hmac_def)
  have expired: "map_of [(''user_id'', 1), (''exp'', 900::int)] ''exp'' = Some 900"
    "900 < utcnow ?env"
    by (simp_all add: sample_environment_def)
  have v0: "verify_token ?env (JWS ''HS256'' [(''exp'', 2800)] 12) = Some [(''exp'', 2800)]"
    "map_of [(''exp'', 2800::int)] ''user_id'' = None"
    by (simp_all add: verify_token_def ALGORITHM_def sample_environment_def sample_hmac_def)
  have v2: "verify_token ?env (JWS ''HS256'' [(''user_id'', 2), (''exp'', 2800)] 13)
       = Some [(''user_id'', 2), (''exp'', 2800)]"
    "map_of [(''user_id'', 2), (''exp'', 2800::int)] ''user_id'' = Some 2"
    by (simp_all add: verify_token_def ALGORITHM_def sample_environment_def sample_hmac_def)
  have v1: "verify_token ?env (JWS ''HS256'' [(''user_id'', 1), (''exp'', 2800)] 13)
       = Some [(''user_id'', 1), (''exp'', 2800)]"
    "map_of [(''user_id'', 1), (''exp'', 2800::int)] ''user_id'' = Some (u_id alice)"
    by (simp_all add: verify_token_def ALGORITHM_def sample_environment_def sample_hmac_def
        alice_def)
  note t1 = auth_failure_status_and_detail [OF c, of ?env 12 "''HS256''" "[(''user_id'', 2), (''exp'', 2800)]" 900
      "JWS ''HS256'' [(''exp'', 2800)] 12" "[(''exp'', 2800)]" 0 alice None]
  note t2 = auth_failure_status_and_detail [OF c, of ?env 13 "''HS256''" "[(''user_id'', 1), (''exp'', 900)]" 900
      "JWS ''HS256'' [(''user_id'', 2), (''exp'', 2800)] 13"
      "[(''user_id'', 2), (''exp'', 2800)]" 2 alice None]
  note t3 = auth_failure_status_and_detail [OF c, of ?env 13 "''HS256''" "[(''user_id'', 1), (''exp'', 900)]" 900
      "JWS ''HS256'' [(''user_id'', 1), (''exp'', 2800)] 13"
      "[(''user_id'', 1), (''exp'', 2800)]" 0 alice None]
  have a1: "authenticate ?env ?db None = Inl (HTTPException 401 ''Not authenticated'')"
    and a2: "authenticate ?env ?db (Some Malformed) = Inl (HTTPException 401 ''Invalid token'')"
    and a3: "authenticate ?env ?db (Some (JWS ''HS256'' [(''user_id'', 2), (''exp'', 2800)] 12))
       = Inl (HTTPException 401 ''Invalid token'')"
    and a5: "authenticate ?env ?db (Some (JWS ''HS256'' [(''exp'', 2800)] 12))
       = Inl (HTTPException 401 ''Invalid token'')"
    using t1 tampered v0 by blast+
  have a4: "authenticate ?env ?db (Some (JWS ''HS256'' [(''user_id'', 1), (''exp'', 900)] 13))
       = Inl (HTTPException 401 ''Invalid token'')"
    and a6: "authenticate ?env ?db (Some (JWS ''HS256'' [(''user_id'', 2), (''exp'', 2800)] 13))
       = Inl (HTTPException 401 ''Invalid user'')"
    using t2 expired v2 users(1) by blast+
  have a7: "authenticate ?env ?db (Some (JWS ''HS256'' [(''user_id'', 1), (''exp'', 2800)] 13))
       = Inr alice"
    using t3 v1 users(2) by blast
  have a8: "status_code 200 (authenticate ?env ?db None) = 401"
    using t1 a1 by blast
  have key: "SECRET_KEY ?env = Some ''secret''"
    "12 \<noteq> hmac ?env ''secret'' ''HS256'' [(''user_id'', 2), (''exp'', 2800)]"
    by (simp_all add: sample_environment_def sample_hmac_def)
  from c users key expired v0 v2(1) v1(1) a1 a2 a3 a4 a5 a6 a7 a8 show ?thesis
    by (intro conjI) assumption+
qed

section \<open>Tokens\<close>

text \<open>
  The token that a successful login returns is the token that \<^verbatim>\<open>create_access_token\<close>
  makes from the payload \<^verbatim>\<open>{"user_id": user.id}\<close> with the default lifetime.
\<close>

lemma login_issues_token:
  assumes "login_for_access_token env db form_username form_password
             = Inr (access_token, token_type)"
  shows "\<exists>user. get_user_by_username db form_username = Inr (Some user)
             \<and> verify_password env form_password (u_hashed_password user)
             \<and> create_access_token env [(''user_id'', u_id user)] default_expires_delta
                 = Inr access_token
             \<and> token_type = ''bearer''"
  using assms
  by (auto simp: login_for_access_token_def split: sum.splits option.splits if_splits)

text \<open>
  Claim C5. When the signing key is set, the token issued for user \<open>U\<close> (as
  \<^verbatim>\<open>login_for_access_token\<close> issues it, with the default lifetime) carries \<open>U\<close>'s id and
  the expiry 30 minutes after the time of issue. Verified at any time up to the expiry
  it yields its payload, whose \<^verbatim>\<open>user_id\<close> is \<open>U\<close>'s id; verified after the expiry it
  yields \<^verbatim>\<open>None\<close>. Any token whose signature is not the keyed hash of its header and
  payload, and any string that is no token, yields \<^verbatim>\<open>None\<close>. \<^verbatim>\<open>verify_token\<close> returns
  an optional payload in every case: it has no exceptional result.
\<close>

theorem token_issue_and_verify:
  assumes "SECRET_KEY env = Some k"
  shows "\<exists>payload signature.
           create_access_token env [(''user_id'', u_id U)] default_expires_delta
             = Inr (JWS ALGORITHM payload signature)
         \<and> map_of payload ''user_id'' = Some (u_id U)
         \<and> map_of payload ''exp'' = Some (utcnow env + 30 * 60)
         \<and> (\<forall>t. t \<le> utcnow env + 30 * 60 \<longrightarrow>
                verify_token (env\<lparr>utcnow := t\<rparr>) (JWS ALGORITHM payload signature)
                  = Some payload)
         \<and> (\<forall>t. utcnow env + 30 * 60 < t \<longrightarrow>
                verify_token (env\<lparr>utcnow := t\<rparr>) (JWS ALGORITHM payload signature) = None)
         \<and> (\<forall>t alg payload' signature'. signature' \<noteq> hmac env k alg payload' \<longrightarrow>
                verify_token (env\<lparr>utcnow := t\<rparr>) (JWS alg payload' signature') = None)
         \<and> (\<forall>t. verify_token (env\<lparr>utcnow := t\<rparr>) Malformed = None)"
proof -
  let ?payload = "[(''user_id'', u_id U), (''exp'', utcnow env + 30 * 60)]"
  let ?signature = "hmac env k ALGORITHM ?payload"
  have issue: "create_access_token env [(''user_id'', u_id U)] default_expires_delta
         = Inr (JWS ALGORITHM ?payload ?signature)"
    using assms
    by (simp add: create_access_token_def jwt_encode_def default_expires_delta_def
        ACCESS_TOKEN_EXPIRE_MINUTES_def Let_def)
  have uid: "map_of ?payload ''user_id'' = Some (u_id U)"
    and exp: "map_of ?payload ''exp'' = Some (utcnow env + 30 * 60)"
    by simp_all
  have before: "verify_token (env\<lparr>utcnow := t\<rparr>) (JWS ALGORITHM ?payload ?signature)
                  = Some ?payload" if "t \<le> utcnow env + 30 * 60" for t
    using assms that by (simp add: verify_token_def)
  have after: "verify_token (env\<lparr>utcnow := t\<rparr>) (JWS ALGORITHM ?payload ?signature) = None"
    if "utcnow env + 30 * 60 < t" for t
    using assms that by (simp add: verify_token_def)
  have tampered: "verify_token (env\<lparr>utcnow := t\<rparr>) (JWS alg payload' signature') = None"
    if "signature' \<noteq> hmac env k alg payload'" for t alg payload' signature'
    using assms that by (auto simp: verify_token_def)
  have malformed: "verify_token (env\<lparr>utcnow := t\<rparr>) Malformed = None" for t
    by (simp add: verify_token_def)
  from issue uid exp before after tampered malformed show ?thesis by blast
qed

theorem token_issue_and_verify_witness:
  "SECRET_KEY sample_environment = Some ''secret''
   \<and> create_access_token sample_environment [(''user_id'', u_id bob)] default_expires_delta
       = Inr (JWS ''HS256'' [(''user_id'', 2), (''exp'', 2800)] 13)
   \<and> verify_token (sample_environment\<lparr>utcnow := 2800\<rparr>)
        (JWS ''HS256'' [(''user_id'', 2), (''exp'', 2800)] 13)
       = Some [(''user_id'', 2), (''exp'', 2800)]
   \<and> verify_token (sample_environment\<lparr>utcnow := 2801\<rparr>)
        (JWS ''HS256'' [(''user_id'', 2), (''exp'', 2800)] 13) = None
   \<and> verify_token (sample_environment\<lparr>utcnow := 1000\<rparr>)
        (JWS ''HS256'' [(''user_id'', 1), (''exp'', 2800)] 12) = None"
proof -
  have k: "SECRET_KEY sample_environment = Some ''secret''"
    by (simp add: sample_environment_def)
  have i: "create_access_token sample_environment [(''user_id'', u_id bob)]
             default_expires_delta
       = Inr (JWS ''HS256'' [(''user_id'', 2), (''exp'', 2800)] 13)"
    by (simp add: create_access_token_def jwt_encode_def default_expires_delta_def
        ACCESS_TOKEN_EXPIRE_MINUTES_def ALGORITHM_def sample_environment_def sample_hmac_def
        bob_def Let_def)
  have n: "utcnow sample_environment + 30 * 60 = 2800"
    "(12::nat) \<noteq> hmac sample_environment ''secret'' ''HS256'' [(''user_id'', 1), (''exp'', 2800)]"
    by (simp_all add: sample_environment_def sample_hmac_def)
  from token_issue_and_verify [OF k, of bob] obtain payload signature where
    "create_access_token sample_environment [(''user_id'', u_id bob)] default_expires_delta
             = Inr (JWS ALGORITHM payload signature)"
    and v: "\<forall>t. t \<le> utcnow sample_environment + 30 * 60 \<longrightarrow>
                verify_token (sample_environment\<lparr>utcnow := t\<rparr>)
                  (JWS ALGORITHM payload signature) = Some payload"
      "\<forall>t. utcnow sample_environment + 30 * 60 < t \<longrightarrow>
                verify_token (sample_environment\<lparr>utcnow := t\<rparr>)
                  (JWS ALGORITHM payload signature) = None"
      "\<forall>t alg payload' signature'.
          signature' \<noteq> hmac sample_environment ''secret'' alg payload' \<longrightarrow>
          verify_token (sample_environment\<lparr>utcnow := t\<rparr>) (JWS alg payload' signature')
            = None"
    by blast
  with i have p: "payload = [(''user_id'', 2), (''exp'', 2800)]" "signature = 13"
    by simp_all
  from v(1) have "verify_token (sample_environment\<lparr>utcnow := 2800\<rparr>)
        (JWS ''HS256'' [(''user_id'', 2), (''exp'', 2800)] 13)
       = Some [(''user_id'', 2), (''exp'', 2800)]"
    unfolding p n ALGORITHM_def by simp
  moreover from v(2) have "verify_token (sample_environment\<lparr>utcnow := 2801\<rparr>)
        (JWS ''HS256'' [(''user_id'', 2), (''exp'', 2800)] 13) = None"
    unfolding p n ALGORITHM_def by simp
  moreover from v(3) n(2) have "verify_token (sample_environment\<lparr>utcnow := 1000\<rparr>)
        (JWS ''HS256'' [(''user_id'', 1), (''exp'', 2800)] 12) = None"
    by blast
  ultimately show ?thesis using k i by blast
qed

section \<open>Registration\<close>

text \<open>
  Claim C10. \<^verbatim>\<open>create_new_user\<close> has no \<open>current_user\<close> among its arguments: the route
  needs no token. It stores the \<^verbatim>\<open>is_admin\<close> of the request body as it is. Whenever
  the username and the email are not taken, the user is created with the requested
  flag, and with \<^verbatim>\<open>is_admin = true\<close> the new user passes \<^verbatim>\<open>get_current_admin\<close>, the
  gate of the admin routes. The sample request creates the admin Eve.
\<close>

theorem registration_accepts_is_admin:
  assumes "uc_username user \<notin> set (map u_username (users db))"
    and "uc_email user \<notin> set (map u_email (users db))"
  shows "\<exists>db' new_user.
           create_new_user env db user = (db', Inr new_user)
         \<and> users db' = users db @ [new_user]
         \<and> u_username new_user = uc_username user
         \<and> u_is_admin new_user = uc_is_admin user
         \<and> (uc_is_admin user \<longrightarrow> get_current_admin new_user = Inr new_user)"
  using assms next_id_fresh [of "map u_id (users db)"]
  by (simp add: create_new_user_def create_user_def commit_new get_current_admin_def Let_def)

theorem registration_accepts_is_admin_witness:
  "''eve'' \<notin> set (map u_username (users sample_database))
   \<and> ''eve@example.org'' \<notin> set (map u_email (users sample_database))
   \<and> create_new_user sample_environment sample_database
        \<lparr>uc_username = ''eve'', uc_password = ''pw'', uc_email = ''eve@example.org'',
         uc_is_admin = True\<rparr>
      = (sample_database\<lparr>users := [alice, bob,
           \<lparr>u_id = 3, u_username = ''eve'', u_hashed_password = ''$2b$pw'',
            u_email = ''eve@example.org'', u_is_active = True, u_is_admin = True\<rparr>]\<rparr>,
         Inr \<lparr>u_id = 3, u_username = ''eve'', u_hashed_password = ''$2b$pw'',
            u_email = ''eve@example.org'', u_is_active = True, u_is_admin = True\<rparr>)
   \<and> get_current_admin
        \<lparr>u_id = 3, u_username = ''eve'', u_hashed_password = ''$2b$pw'',
         u_email = ''eve@example.org'', u_is_active = True, u_is_admin = True\<rparr>
      = Inr \<lparr>u_id = 3, u_username = ''eve'', u_hashed_password = ''$2b$pw'',
         u_email = ''eve@example.org'', u_is_active = True, u_is_admin = True\<rparr>"
proof -
  let ?user = "\<lparr>uc_username = ''eve'', uc_password = ''pw'', uc_email = ''eve@example.org'',
         uc_is_admin = True\<rparr>"
  let ?eve = "\<lparr>u_id = 3, u_username = ''eve'', u_hashed_password = ''$2b$pw'',
            u_email = ''eve@example.org'', u_is_active = True, u_is_admin = True\<rparr>"
  have h: "uc_username ?user \<notin> set (map u_username (users sample_database))"
    "uc_email ?user \<notin> set (map u_email (users sample_database))"
    by (simp_all add: sample_defs)
  have e: "create_new_user sample_environment sample_database ?user
      = (sample_database\<lparr>users := [alice, bob, ?eve]\<rparr>, Inr ?eve)"
    by (simp add: create_new_user_def create_user_def commit_new get_hashed_password_def
        sample_environment_def sample_pwd_hash_def next_id_def sample_defs Let_def)
  from registration_accepts_is_admin [OF h, of sample_environment] e
  have "get_current_admin ?eve = Inr ?eve" by auto
  with h e show ?thesis by simp
qed

end
